theory Spec2Isabelle
  imports Complex_Main "HOL-Library.Multiset"
begin

section \<open>Range slider of the filter sidebar\<close>

text \<open>
  The sidebar keeps \<^verbatim>\<open>const [range, setRange] = useState({ min, max })\<close>. Proposed
  values arrive as \<^verbatim>\<open>Number(e.target.value)\<close> from a range thumb or from a number
  field; they are modelled as integers. A handler either commits a new pair (it calls
  \<^verbatim>\<open>setRange\<close> and \<^verbatim>\<open>onPriceChange\<close> with the same pair) or returns early
  without committing anything: the result is \<open>Some\<close> of the committed pair, or \<open>None\<close>.
\<close>

record price_range =
  range_min :: int
  range_max :: int

text \<open>
  The guarded handlers (the sidebar with the click-outside dropdown):
  \<^verbatim>\<open>
  const handleMinChange = (value: number) => {
    if (range.max === 1) return;
    const newMin = Math.min(value, 9999, range.max);
    setRange({ ...range, min: newMin });
    onPriceChange(newMin, range.max);
  };
  const handleMaxChange = (value: number) => {
    if (range.min === 9999) return;
    const newMax = Math.max(range.min, Math.min(value, 10000));
    setRange({ ...range, max: newMax });
    onPriceChange(range.min, newMax);
  };
  \<close>
\<close>

definition handleMinChange :: "price_range \<Rightarrow> int \<Rightarrow> price_range option" where
  "handleMinChange rng v =
     (if range_max rng = 1 then None
      else let newMin = min v (min 9999 (range_max rng))
           in Some (rng\<lparr>range_min := newMin\<rparr>))"

definition handleMaxChange :: "price_range \<Rightarrow> int \<Rightarrow> price_range option" where
  "handleMaxChange rng v =
     (if range_min rng = 9999 then None
      else let newMax = max (range_min rng) (min v 10000)
           in Some (rng\<lparr>range_max := newMax\<rparr>))"

text \<open>
  The unguarded handlers of \<^verbatim>\<open>components/FilterSidebar/FilterSidebar.tsx\<close>:
  \<^verbatim>\<open>
  const handleMinChange = (value: number) => {
    const newMin = Math.min(value, range.max); ...
  const handleMaxChange = (value: number) => {
    const newMax = Math.max(value, range.min); ...
  \<close>
\<close>

definition handleMinChange_tsx :: "price_range \<Rightarrow> int \<Rightarrow> price_range option" where
  "handleMinChange_tsx rng v =
     (let newMin = min v (range_max rng) in Some (rng\<lparr>range_min := newMin\<rparr>))"

definition handleMaxChange_tsx :: "price_range \<Rightarrow> int \<Rightarrow> price_range option" where
  "handleMaxChange_tsx rng v =
     (let newMax = max v (range_min rng) in Some (rng\<lparr>range_max := newMax\<rparr>))"

text \<open>The four input channels deliver one of two events, each with its proposed value.\<close>

datatype slider_event = MinChange int | MaxChange int

fun proposed :: "slider_event \<Rightarrow> int" where
  "proposed (MinChange v) = v"
| "proposed (MaxChange v) = v"

fun handle :: "price_range \<Rightarrow> slider_event \<Rightarrow> price_range option" where
  "handle rng (MinChange v) = handleMinChange rng v"
| "handle rng (MaxChange v) = handleMaxChange rng v"

fun handle_tsx :: "price_range \<Rightarrow> slider_event \<Rightarrow> price_range option" where
  "handle_tsx rng (MinChange v) = handleMinChange_tsx rng v"
| "handle_tsx rng (MaxChange v) = handleMaxChange_tsx rng v"

text \<open>
  The states committed by a sequence of events, one render after the other: an event
  whose handler returns early commits nothing and leaves the state as it was.
\<close>

fun committed ::
  "(price_range \<Rightarrow> slider_event \<Rightarrow> price_range option) \<Rightarrow> price_range \<Rightarrow>
   slider_event list \<Rightarrow> price_range list" where
  "committed h rng [] = []"
| "committed h rng (e # es) =
     (case h rng e of
        None \<Rightarrow> committed h rng es
      | Some rng' \<Rightarrow> rng' # committed h rng' es)"

text \<open>The invariant the specification states, and the one the guarded handlers keep.\<close>

definition slider_inv :: "price_range \<Rightarrow> bool" where
  "slider_inv r \<longleftrightarrow> 0 \<le> range_min r \<and> range_min r < range_max r \<and> range_max r \<le> 10000"

definition upper_inv :: "price_range \<Rightarrow> bool" where
  "upper_inv r \<longleftrightarrow> range_min r \<le> range_max r \<and> range_min r \<le> 9999 \<and> range_max r \<le> 10000"

text \<open>
  The committed minimum as the specification words it: clamp to \<open>[0, 9999]\<close>, then
  clamp to at most the current maximum.
\<close>

definition spec_min_commit :: "price_range \<Rightarrow> int \<Rightarrow> int" where
  "spec_min_commit rng v = min (max 0 (min v 9999)) (range_max rng)"

section \<open>Strings and JSON values\<close>

text \<open>
  Template literals turn a number into its decimal numeral; the numbers that reach them
  here (ids, HTTP status codes) are integers. An integer of magnitude \<open>10\<^sup>2\<^sup>1\<close> or
  more, which JavaScript prints with an exponent, is outside the model.
\<close>

definition digit_char :: "nat \<Rightarrow> char" where
  "digit_char n = ''0123456789'' ! n"

fun show_nat :: "nat \<Rightarrow> string" where
  "show_nat n = (if n < 10 then [digit_char n] else show_nat (n div 10) @ [digit_char (n mod 10)])"

definition show_int :: "int \<Rightarrow> string" where
  "show_int i = (if i < 0 then CHR ''-'' # show_nat (nat (- i)) else show_nat (nat i))"

text \<open>
  A parsed JSON value. Numbers are restricted to integers: the decimal rendering of a
  fraction is not modelled. An object is the list of its properties, in creation order.
\<close>

datatype json =
  JNull | JBool bool | JNum int | JStr string | JArr "json list" | JObj "(string \<times> json) list"

text \<open>The errors that can be thrown: \<^verbatim>\<open>new Error(message)\<close> and the built-in ones.\<close>

datatype js_error = Error string | TypeError string | SyntaxError string

text \<open>
  \<^verbatim>\<open>ToString\<close>, as \<^verbatim>\<open>new Error(x)\<close> applies it to its argument: an array joins
  its elements with commas (\<^verbatim>\<open>null\<close> is the empty string), an object is
  \<^verbatim>\<open>[object Object]\<close>.
\<close>

fun join :: "string \<Rightarrow> string list \<Rightarrow> string" where
  "join sep [] = []"
| "join sep [s] = s"
| "join sep (s # t # ss) = s @ sep @ join sep (t # ss)"

fun to_string :: "json \<Rightarrow> string" where
  "to_string JNull = ''null''"
| "to_string (JBool b) = (if b then ''true'' else ''false'')"
| "to_string (JNum n) = show_int n"
| "to_string (JStr s) = s"
| "to_string (JArr xs) = join '','' (map (\<lambda>x. if x = JNull then [] else to_string x) xs)"
| "to_string (JObj kvs) = ''[object Object]''"

text \<open>
  Truthiness of \<^verbatim>\<open>error.detail\<close> in \<^verbatim>\<open>error.detail || ...\<close>; \<open>None\<close> is
  \<^verbatim>\<open>undefined\<close>.
\<close>

fun truthy :: "json option \<Rightarrow> bool" where
  "truthy None = False"
| "truthy (Some JNull) = False"
| "truthy (Some (JBool b)) = b"
| "truthy (Some (JNum n)) = (n \<noteq> 0)"
| "truthy (Some (JStr s)) = (s \<noteq> [])"
| "truthy (Some (JArr xs)) = True"
| "truthy (Some (JObj kvs)) = True"

text \<open>
  Reading a property: of \<^verbatim>\<open>null\<close> it throws a TypeError, of an object it gives
  the property or \<^verbatim>\<open>undefined\<close>, of any other parsed value \<^verbatim>\<open>undefined\<close>.
\<close>

fun get_property :: "json \<Rightarrow> string \<Rightarrow> js_error + json option" where
  "get_property JNull k =
     Inl (TypeError (''Cannot read properties of null (reading '' @ [CHR 0x27] @ k @ [CHR 0x27] @ '')''))"
| "get_property (JObj kvs) k = Inr (map_of kvs k)"
| "get_property v k = Inr None"

text \<open>
  Assignment to a property of an object: an existing property keeps its place.
\<close>

fun assign :: "'k \<Rightarrow> 'v \<Rightarrow> ('k \<times> 'v) list \<Rightarrow> ('k \<times> 'v) list" where
  "assign k v [] = [(k, v)]"
| "assign k v ((k', v') # kvs) =
     (if k = k' then (k, v) # kvs else (k', v') # assign k v kvs)"

section \<open>API client\<close>

text \<open>
  \<^verbatim>\<open>fetch\<close> is a parameter: it answers a request with a response, or rejects with an
  error. Of a response the client reads \<^verbatim>\<open>ok\<close> (the status is in 200..299),
  \<^verbatim>\<open>status\<close> and \<^verbatim>\<open>json()\<close>, which gives the parsed body or rejects.
\<close>

record request_init =
  init_method :: "string option"
  init_headers :: "(string \<times> string) list"
  init_body :: "string option"

record http_request =
  req_url :: string
  req_method :: string
  req_headers :: "(string \<times> string) list"
  req_body :: "string option"

record response =
  status :: int
  json_body :: "js_error + json"

definition ok :: "response \<Rightarrow> bool" where
  "ok response \<longleftrightarrow> 200 \<le> status response \<and> status response \<le> 299"

text \<open>\<^verbatim>\<open>a || b\<close> on the detail, then \<^verbatim>\<open>ToString\<close> of the chosen value.\<close>

definition or_else :: "json option \<Rightarrow> string \<Rightarrow> string" where
  "or_else detail fallback =
     (case detail of
        None \<Rightarrow> fallback
      | Some v \<Rightarrow> if truthy (Some v) then to_string v else fallback)"


text \<open>
  \<^verbatim>\<open>
  private async request<T>(endpoint: string, options?: RequestInit): Promise<T> {
    const url = `${API_BASE_URL}${endpoint}`;
    try {
      const response = await fetch(url, {
        ...options,
        headers: { 'Content-Type': 'application/json', ...options?.headers },
      });
      if (!response.ok) {
        const error = await response.json().catch(() => ({ detail: 'Unknown error' }));
        throw new Error(error.detail || `HTTP error! status: ${response.status}`);
      }
      return await response.json();
    } catch (error) {
      console.error('API request failed:', error);
      throw error;
    }
  }
  \<close>
  The result is the list of requests handed to \<^verbatim>\<open>fetch\<close> and the outcome: the
  error thrown (the \<^verbatim>\<open>catch\<close> rethrows it as it is) or the parsed body. A request
  without a method is a GET.
\<close>

definition request ::
  "string \<Rightarrow> (http_request \<Rightarrow> js_error + response) \<Rightarrow> string \<Rightarrow> request_init option \<Rightarrow>
   http_request list \<times> (js_error + json)" where
  "request base fetch endpoint options =
     (let url = base @ endpoint;
          req = \<lparr>req_url = url,
                 req_method = (case options of
                                 None \<Rightarrow> ''GET''
                               | Some opt \<Rightarrow> (case init_method opt of None \<Rightarrow> ''GET'' | Some m \<Rightarrow> m)),
                 req_headers = fold (\<lambda>(k, v). assign k v)
                                 (case options of None \<Rightarrow> [] | Some opt \<Rightarrow> init_headers opt)
                                 [(''Content-Type'', ''application/json'')],
                 req_body = (case options of None \<Rightarrow> None | Some opt \<Rightarrow> init_body opt)\<rparr>
      in ([req],
          case fetch req of
            Inl e \<Rightarrow> Inl e
          | Inr response \<Rightarrow>
              if \<not> ok response then
                (let error = (case json_body response of
                                Inl e \<Rightarrow> JObj [(''detail'', JStr ''Unknown error'')]
                              | Inr j \<Rightarrow> j)
                 in case get_property error ''detail'' of
                      Inl e \<Rightarrow> Inl e
                    | Inr detail \<Rightarrow>
                        Inl (Error (or_else detail
                                      (''HTTP error! status: '' @ show_int (status response)))))
              else json_body response))"

text \<open>
  \<^verbatim>\<open>
  async getGameById(id: number) { return this.request<Game>(`/games/${id}`); }
  async searchGames(keyword: string) { return this.request<Game[]>(`/games/search/${keyword}`); }
  \<close>
\<close>

definition getGameById ::
  "string \<Rightarrow> (http_request \<Rightarrow> js_error + response) \<Rightarrow> int \<Rightarrow>
   http_request list \<times> (js_error + json)" where
  "getGameById base fetch i = request base fetch (''/games/'' @ show_int i) None"


section \<open>Games and the catalog pipeline\<close>

text \<open>
  Modelled from the spec: the \<^verbatim>\<open>Game\<close> type of \<^verbatim>\<open>@/types/api\<close>, which the
  pages import and whose declaration is missing; its fields are those of the data model
  and of the code that reads them. JSON numbers are modelled as reals (price,
  rating) and integers (ids). The field \<open>release_date\<close> holds the instant the code
  compares, \<^verbatim>\<open>new Date(game.release_date).getTime()\<close>, in milliseconds; a date that
  does not parse is outside the model.
\<close>

record game =
  g_id :: int
  title :: string
  description :: string
  price :: real
  rating :: real
  release_date :: int
  genre_id :: int
  platform_id :: int

text \<open>
  \<^verbatim>\<open>Array.prototype.sort(cmp)\<close> is stable; for a comparator that is a difference of
  keys its result is the one arrangement that is ordered and keeps ties in place. It is
  computed here by inserting each element, from the right, before the first element that
  does not have to precede it (\<open>cmp x y \<le> 0\<close>).
\<close>

fun insert_by :: "('a \<Rightarrow> 'a \<Rightarrow> 'n::linordered_ab_group_add) \<Rightarrow> 'a \<Rightarrow> 'a list \<Rightarrow> 'a list" where
  "insert_by cmp x [] = [x]"
| "insert_by cmp x (y # ys) =
     (if cmp x y \<le> 0 then x # y # ys else y # insert_by cmp x ys)"

definition js_sort :: "('a \<Rightarrow> 'a \<Rightarrow> 'n::linordered_ab_group_add) \<Rightarrow> 'a list \<Rightarrow> 'a list" where
  "js_sort cmp xs = foldr (insert_by cmp) xs []"

text \<open>
  The state of the catalog page that \<^verbatim>\<open>getFilteredGames\<close> reads.
\<close>

record catalog =
  allGames :: "game list"
  selectedGenre :: "int option"
  selectedPlatform :: "int option"
  minPrice :: real
  maxPrice :: real
  sortBy :: string

text \<open>
  \<^verbatim>\<open>
  const getFilteredGames = (): Game[] => {
    let filtered = [...allGames];
    if (selectedGenre !== null) {
      filtered = filtered.filter((game) => game.genre_id === selectedGenre);
    }
    if (selectedPlatform !== null) {
      filtered = filtered.filter((game) => game.platform_id === selectedPlatform);
    }
    filtered = filtered.filter(
      (game) => game.price >= minPrice && game.price <= maxPrice
    );
    switch (sortBy) {
      case 'newest':
        filtered.sort((a, b) => new Date(b.release_date).getTime() - new Date(a.release_date).getTime());
        break;
      case 'oldest': ... a.release_date ... - ... b.release_date ...
      case 'price-asc':  filtered.sort((a, b) => a.price - b.price); break;
      case 'price-desc': filtered.sort((a, b) => b.price - a.price); break;
      case 'rating':     filtered.sort((a, b) => b.rating - a.rating); break;
    }
    return filtered;
  };
  \<close>
  The function is split at the \<^verbatim>\<open>switch\<close>: \<open>applyFilters\<close> is the sequence before
  sorting, \<open>applySort\<close> the \<^verbatim>\<open>switch\<close>.
\<close>

definition applyFilters :: "catalog \<Rightarrow> game list" where
  "applyFilters c =
     (let filtered = allGames c;
          filtered = (case selectedGenre c of
                        None \<Rightarrow> filtered
                      | Some sg \<Rightarrow> filter (\<lambda>game. genre_id game = sg) filtered);
          filtered = (case selectedPlatform c of
                        None \<Rightarrow> filtered
                      | Some sp \<Rightarrow> filter (\<lambda>game. platform_id game = sp) filtered);
          filtered = filter (\<lambda>game. minPrice c \<le> price game \<and> price game \<le> maxPrice c) filtered
      in filtered)"

definition applySort :: "string \<Rightarrow> game list \<Rightarrow> game list" where
  "applySort key filtered =
     (if key = ''newest'' then js_sort (\<lambda>a b. release_date b - release_date a) filtered
      else if key = ''oldest'' then js_sort (\<lambda>a b. release_date a - release_date b) filtered
      else if key = ''price-asc'' then js_sort (\<lambda>a b. price a - price b) filtered
      else if key = ''price-desc'' then js_sort (\<lambda>a b. price b - price a) filtered
      else if key = ''rating'' then js_sort (\<lambda>a b. rating b - rating a) filtered
      else filtered)"

definition getFilteredGames :: "catalog \<Rightarrow> game list" where
  "getFilteredGames c = applySort (sortBy c) (applyFilters c)"

text \<open>The active predicates of a filter state, all at once.\<close>

definition satisfies :: "catalog \<Rightarrow> game \<Rightarrow> bool" where
  "satisfies c game \<longleftrightarrow>
     (case selectedGenre c of None \<Rightarrow> True | Some sg \<Rightarrow> genre_id game = sg) \<and>
     (case selectedPlatform c of None \<Rightarrow> True | Some sp \<Rightarrow> platform_id game = sp) \<and>
     minPrice c \<le> price game \<and> price game \<le> maxPrice c"

section \<open>The catalog pipeline on a store of arrays\<close>

text \<open>
  To state what the pipeline leaves untouched, arrays and game objects are placed in a
  store: an array is an address holding a list of references, a reference denotes a game
  object, and the addresses below \<open>lim\<close> are the arrays allocated so far. The spread
  \<^verbatim>\<open>[...allGames]\<close> and \<^verbatim>\<open>filter\<close> allocate a new array; \<^verbatim>\<open>sort\<close> rearranges
  the array it is called on, in place. Nothing in the pipeline writes to a game object.
\<close>

type_synonym addr = nat
type_synonym ref = nat

record store =
  arrays :: "addr \<Rightarrow> ref list"
  objects :: "ref \<Rightarrow> game"
  lim :: addr

definition alloc :: "ref list \<Rightarrow> store \<Rightarrow> addr \<times> store" where
  "alloc xs h = (lim h, h\<lparr>arrays := (arrays h)(lim h := xs), lim := lim h + 1\<rparr>)"

definition copy_array :: "addr \<Rightarrow> store \<Rightarrow> addr \<times> store" where
  "copy_array a h = alloc (arrays h a) h"

definition filter_array :: "(game \<Rightarrow> bool) \<Rightarrow> addr \<Rightarrow> store \<Rightarrow> addr \<times> store" where
  "filter_array P a h = alloc (filter (\<lambda>r. P (objects h r)) (arrays h a)) h"

definition sort_array ::
  "(game \<Rightarrow> game \<Rightarrow> 'n::linordered_ab_group_add) \<Rightarrow> addr \<Rightarrow> store \<Rightarrow> store" where
  "sort_array cmp a h =
     h\<lparr>arrays := (arrays h)(a := js_sort (\<lambda>x y. cmp (objects h x) (objects h y)) (arrays h a))\<rparr>"

text \<open>
  \<open>getFilteredGames\<close> again, statement by statement, with \<open>allGames\<close> the array at
  address \<open>a\<close>; the other fields of the page state are read from \<open>c\<close>.
\<close>

definition applyFilters_in :: "addr \<Rightarrow> catalog \<Rightarrow> store \<Rightarrow> addr \<times> store" where
  "applyFilters_in a c h =
     (let (filtered, h) = copy_array a h;
          (filtered, h) = (case selectedGenre c of
                             None \<Rightarrow> (filtered, h)
                           | Some sg \<Rightarrow> filter_array (\<lambda>game. genre_id game = sg) filtered h);
          (filtered, h) = (case selectedPlatform c of
                             None \<Rightarrow> (filtered, h)
                           | Some sp \<Rightarrow> filter_array (\<lambda>game. platform_id game = sp) filtered h)
      in filter_array (\<lambda>game. minPrice c \<le> price game \<and> price game \<le> maxPrice c) filtered h)"

definition applySort_in :: "string \<Rightarrow> addr \<Rightarrow> store \<Rightarrow> store" where
  "applySort_in key filtered h =
     (if key = ''newest'' then sort_array (\<lambda>a b. release_date b - release_date a) filtered h
      else if key = ''oldest'' then sort_array (\<lambda>a b. release_date a - release_date b) filtered h
      else if key = ''price-asc'' then sort_array (\<lambda>a b. price a - price b) filtered h
      else if key = ''price-desc'' then sort_array (\<lambda>a b. price b - price a) filtered h
      else if key = ''rating'' then sort_array (\<lambda>a b. rating b - rating a) filtered h
      else h)"

definition getFilteredGames_in :: "addr \<Rightarrow> catalog \<Rightarrow> store \<Rightarrow> addr \<times> store" where
  "getFilteredGames_in a c h =
     (let (filtered, h) = applyFilters_in a c h
      in (filtered, applySort_in (sortBy c) filtered h))"

text \<open>
  A later store extends an earlier one when the game objects are the same and every array
  of the earlier store is still there with the same content. \<open>games_at\<close> reads the
  games an array holds.
\<close>

definition extends :: "store \<Rightarrow> store \<Rightarrow> bool" where
  "extends h h' \<longleftrightarrow>
     objects h' = objects h \<and> lim h \<le> lim h' \<and> (\<forall>b < lim h. arrays h' b = arrays h b)"

definition games_at :: "store \<Rightarrow> addr \<Rightarrow> game list" where
  "games_at h a = map (objects h) (arrays h a)"

section \<open>Home page: top rated games\<close>

text \<open>
  \<^verbatim>\<open>
  const topRatedGames = [...games]
    .sort((a, b) => b.rating - a.rating)
    .slice(0, 6)                       // .slice(0, 3) on the page with the order tally
    .filter((game) => game.rating > 0);
  \<close>
\<close>

definition topRatedGames_6 :: "game list \<Rightarrow> game list" where
  "topRatedGames_6 games =
     filter (\<lambda>game. 0 < rating game) (take 6 (js_sort (\<lambda>a b. rating b - rating a) games))"

definition topRatedGames_3 :: "game list \<Rightarrow> game list" where
  "topRatedGames_3 games =
     filter (\<lambda>game. 0 < rating game) (take 3 (js_sort (\<lambda>a b. rating b - rating a) games))"

text \<open>
  The list as the specification words it: exclude the games rated 0, order the rest by
  rating descending, take the first \<open>N\<close>.
\<close>

definition top_rated_spec :: "nat \<Rightarrow> game list \<Rightarrow> game list" where
  "top_rated_spec N games =
     take N (js_sort (\<lambda>a b. rating b - rating a) (filter (\<lambda>game. rating game \<noteq> 0) games))"

section \<open>Profile page: joining orders, library and reviews with the catalog\<close>

text \<open>
  Modelled from the spec: the \<^verbatim>\<open>Order\<close> and \<^verbatim>\<open>Review\<close> types of
  \<^verbatim>\<open>@/types/api\<close>, whose declarations are missing; their fields are those of the
  data model. A library entry is typed \<^verbatim>\<open>any\<close>; the code reads its \<^verbatim>\<open>game_id\<close>.
  A displayed order is the order with one more field, \<^verbatim>\<open>gameTitle\<close>.
\<close>

record order =
  o_id :: int
  o_user_id :: int
  o_game_id :: int
  game_price :: real
  purchase_date :: string

record order_row = order +
  gameTitle :: string

record review =
  r_id :: int
  r_user_id :: int
  r_game_id :: int
  r_rating :: int
  comment :: string

record library_entry =
  l_user_id :: int
  l_game_id :: int

text \<open>The template literal \<^verbatim>\<open>`#${order.game_id}`\<close>.\<close>

definition placeholder :: "int \<Rightarrow> string" where
  "placeholder gid = CHR ''#'' # show_int gid"

text \<open>
  \<^verbatim>\<open>
  const loadOrders = async (games: Game[]) => {
    if (!currentUser) return;
    try {
      const data = await api.getUserOrders(currentUser.id);
      const ordersWithGames = data.map(order => {
        const game = games.find(g => g.id === order.game_id);
        return { ...order, gameTitle: game?.title ?? `#${order.game_id}` };
      });
      setOrders(ordersWithGames);
    } catch (error) { console.error('Failed to load orders:', error); }
  };
  \<close>
  The result of a loader is the value it hands to the state setter, or \<open>None\<close> when it
  returns or catches before that. The outcome of the API call is a parameter.
\<close>

definition ordersWithGames :: "game list \<Rightarrow> order list \<Rightarrow> order_row list" where
  "ordersWithGames games data =
     map (\<lambda>order.
            let game = find (\<lambda>g. g_id g = o_game_id order) games
            in order.extend order
                 (order_row.fields
                    (case game of Some g \<Rightarrow> title g | None \<Rightarrow> placeholder (o_game_id order))))
         data"

definition loadOrders ::
  "int option \<Rightarrow> (js_error + order list) \<Rightarrow> game list \<Rightarrow> order_row list option" where
  "loadOrders currentUser fetched games =
     (case currentUser of
        None \<Rightarrow> None
      | Some uid \<Rightarrow>
          (case fetched of
             Inl e \<Rightarrow> None
           | Inr data \<Rightarrow> Some (ordersWithGames games data)))"

text \<open>
  \<^verbatim>\<open>
  const library = await api.getUserLibrary(currentUser.id);
  const userGames = library
    .map((lib: any) => games.find((game) => game.id === lib.game_id))
    .filter((game): game is Game => game !== undefined);
  setLibraryGames(userGames);
  \<close>
\<close>

definition userGames :: "game list \<Rightarrow> library_entry list \<Rightarrow> game list" where
  "userGames games library =
     List.map_filter (\<lambda>lib. find (\<lambda>game. g_id game = l_game_id lib) games) library"

definition loadLibrary ::
  "int option \<Rightarrow> (js_error + library_entry list) \<Rightarrow> game list \<Rightarrow> game list option" where
  "loadLibrary currentUser fetched games =
     (case currentUser of
        None \<Rightarrow> None
      | Some uid \<Rightarrow>
          (case fetched of
             Inl e \<Rightarrow> None
           | Inr library \<Rightarrow> Some (userGames games library)))"

text \<open>
  \<^verbatim>\<open>
  const allReviews = await api.getAllReviews();
  const filtered = allReviews.filter((review) => review.user_id === currentUser.id);
  setUserReviews(filtered);
  ...
  const game = allGames.find(g => g.id === review.game_id);
  ... {game?.title ?? `#${review.game_id}`}
  \<close>
\<close>

definition loadUserReviews ::
  "int option \<Rightarrow> (js_error + review list) \<Rightarrow> review list option" where
  "loadUserReviews currentUser fetched =
     (case currentUser of
        None \<Rightarrow> None
      | Some uid \<Rightarrow>
          (case fetched of
             Inl e \<Rightarrow> None
           | Inr allReviews \<Rightarrow> Some (filter (\<lambda>review. r_user_id review = uid) allReviews)))"

definition reviewTitle :: "game list \<Rightarrow> review \<Rightarrow> string" where
  "reviewTitle games review =
     (case find (\<lambda>g. g_id g = r_game_id review) games of
        Some game \<Rightarrow> title game
      | None \<Rightarrow> placeholder (r_game_id review))"

section \<open>Home page: featured games by purchase count\<close>

text \<open>
  \<^verbatim>\<open>
  const purchaseCount: Record<number, number> = {};
  orders.forEach(order => {
    purchaseCount[order.game_id] = (purchaseCount[order.game_id] || 0) + 1;
  });
  \<close>
  The tally is a plain object; it is modelled as the list of its properties in creation
  order, keyed by the number whose numeral is the property name.
\<close>

definition bump :: "(int \<times> int) list \<Rightarrow> int \<Rightarrow> (int \<times> int) list" where
  "bump purchaseCount gid =
     assign gid ((case map_of purchaseCount gid of None \<Rightarrow> 0 | Some n \<Rightarrow> n) + 1) purchaseCount"

definition tally :: "order list \<Rightarrow> (int \<times> int) list" where
  "tally orders = fold (\<lambda>order purchaseCount. bump purchaseCount (o_game_id order)) orders []"

text \<open>
  \<^verbatim>\<open>Object.entries\<close> lists the properties whose names are array indices (the
  integers from 0 to \<open>2\<^sup>3\<^sup>2 - 2\<close>) first, in ascending numeric order, and the
  other properties after them in creation order.
\<close>

definition is_array_index :: "int \<Rightarrow> bool" where
  "is_array_index k \<longleftrightarrow> 0 \<le> k \<and> k < 4294967295"

definition Object_entries :: "(int \<times> 'v) list \<Rightarrow> (int \<times> 'v) list" where
  "Object_entries obj =
     sort_key fst (filter (\<lambda>(k, v). is_array_index k) obj)
     @ filter (\<lambda>(k, v). \<not> is_array_index k) obj"

text \<open>
  \<^verbatim>\<open>
  const sortedGameIds = Object.entries(purchaseCount)
    .sort(([, a], [, b]) => b - a)
    .slice(0, 3)
    .map(([id]) => Number(id));
  const featuredGames = sortedGameIds
    .map(id => games.find(g => g.id === id))
    .filter((game): game is Game => game !== undefined);
  if (featuredGames.length < 3) {
    const remainingGames = games
      .filter(g => !featuredGames.find(fg => fg.id === g.id))
      .slice(0, 3 - featuredGames.length);
    return [...featuredGames, ...remainingGames];
  }
  return featuredGames;
  } catch { return games.slice(0, 3); }
  \<close>
  The outcome of \<^verbatim>\<open>api.getAllOrders()\<close> is a parameter.
\<close>

definition sortedGameIds :: "order list \<Rightarrow> int list" where
  "sortedGameIds orders =
     map fst (take 3 (js_sort (\<lambda>(ka, a) (kb, b). b - a) (Object_entries (tally orders))))"

definition getMostPurchasedGames :: "game list \<Rightarrow> (js_error + order list) \<Rightarrow> game list" where
  "getMostPurchasedGames games fetched =
     (case fetched of
        Inl e \<Rightarrow> take 3 games
      | Inr orders \<Rightarrow>
          (let featuredGames =
                 List.map_filter (\<lambda>i. find (\<lambda>g. g_id g = i) games) (sortedGameIds orders)
           in if length featuredGames < 3
              then (let remainingGames =
                          take (3 - length featuredGames)
                            (filter (\<lambda>g. find (\<lambda>fg. g_id fg = g_id g) featuredGames = None) games)
                    in featuredGames @ remainingGames)
              else featuredGames))"

section \<open>Sample data\<close>

definition sample_game :: "int \<Rightarrow> real \<Rightarrow> real \<Rightarrow> int \<Rightarrow> int \<Rightarrow> int \<Rightarrow> game" where
  "sample_game i p r d g pf =
     \<lparr>g_id = i, title = ''game'', description = ''text'', price = p, rating = r,
      release_date = d, genre_id = g, platform_id = pf\<rparr>"

definition sample_catalog :: catalog where
  "sample_catalog =
     \<lparr>allGames = [sample_game 1 30 4 100 7 1, sample_game 2 10 0 300 7 2,
                  sample_game 3 30 5 200 8 1, sample_game 4 900 3 50 7 1],
      selectedGenre = Some 7, selectedPlatform = Some 1, minPrice = 0, maxPrice = 100,
      sortBy = ''price-asc''\<rparr>"

definition sample_ratings :: "game list" where
  "sample_ratings =
     [sample_game 1 10 1 0 1 1, sample_game 2 10 0 0 1 1, sample_game 3 10 2 0 1 1,
      sample_game 4 10 3 0 1 1, sample_game 5 10 4 0 1 1, sample_game 6 10 5 0 1 1,
      sample_game 7 10 2 0 1 1, sample_game 8 10 1 0 1 1]"

definition sample_order :: "int \<Rightarrow> int \<Rightarrow> order" where
  "sample_order i gid =
     \<lparr>o_id = i, o_user_id = 1, o_game_id = gid, game_price = 10, purchase_date = ''2024-01-01''\<rparr>"

definition sample_store :: store where
  "sample_store =
     \<lparr>arrays = (\<lambda>b. if b = 0 then [0, 1, 2, 3] else []),
      objects = (\<lambda>i. allGames sample_catalog ! i),
      lim = 1\<rparr>"

definition sample_sorting :: catalog where
  "sample_sorting = sample_catalog\<lparr>selectedGenre := None, maxPrice := 1000, sortBy := ''price-desc''\<rparr>"

section \<open>Verified properties\<close>

subsection \<open>Range slider\<close>

lemma handle_upper_inv:
  "upper_inv r \<Longrightarrow> handle r e = Some r' \<Longrightarrow> upper_inv r'"
  by (cases e)
     (auto simp: upper_inv_def handleMinChange_def handleMaxChange_def Let_def
           split: if_splits)

lemma handle_nonneg:
  "0 \<le> range_min r \<Longrightarrow> range_min r \<le> range_max r \<Longrightarrow> 0 \<le> proposed e \<Longrightarrow>
   handle r e = Some r' \<Longrightarrow> 0 \<le> range_min r' \<and> range_min r' \<le> range_max r'"
  by (cases e)
     (auto simp: handleMinChange_def handleMaxChange_def Let_def split: if_splits)

lemma handle_tsx_ordered:
  "range_min r \<le> range_max r \<Longrightarrow> handle_tsx r e = Some r' \<Longrightarrow> range_min r' \<le> range_max r'"
  by (cases e) (auto simp: handleMinChange_tsx_def handleMaxChange_tsx_def Let_def)

lemma committed_upper_inv:
  "upper_inv r \<Longrightarrow> s \<in> set (committed handle r es) \<Longrightarrow> upper_inv s"
proof (induction es arbitrary: r)
  case Nil
  then show ?case by simp
next
  case (Cons e es)
  show ?case
  proof (cases "handle r e")
    case None
    with Cons show ?thesis by simp
  next
    case (Some r')
    from Cons.prems(1) Some have "upper_inv r'" by (rule handle_upper_inv)
    with Cons Some show ?thesis by auto
  qed
qed

lemma committed_nonneg:
  "0 \<le> range_min r \<Longrightarrow> range_min r \<le> range_max r \<Longrightarrow> \<forall>e \<in> set es. 0 \<le> proposed e \<Longrightarrow>
   s \<in> set (committed handle r es) \<Longrightarrow> 0 \<le> range_min s"
proof (induction es arbitrary: r)
  case Nil
  then show ?case by simp
next
  case (Cons e es)
  show ?case
  proof (cases "handle r e")
    case None
    with Cons show ?thesis by simp
  next
    case (Some r')
    from Cons.prems Some have "0 \<le> range_min r' \<and> range_min r' \<le> range_max r'"
      using handle_nonneg [of r e r'] by simp
    with Cons Some show ?thesis by auto
  qed
qed

lemma committed_tsx_ordered:
  "range_min r \<le> range_max r \<Longrightarrow> s \<in> set (committed handle_tsx r es) \<Longrightarrow>
   range_min s \<le> range_max s"
proof (induction es arbitrary: r)
  case Nil
  then show ?case by simp
next
  case (Cons e es)
  show ?case
  proof (cases "handle_tsx r e")
    case None
    with Cons show ?thesis by simp
  next
    case (Some r')
    from Cons.prems(1) Some have "range_min r' \<le> range_max r'"
      by (rule handle_tsx_ordered)
    with Cons Some show ?thesis by auto
  qed
qed

text \<open>
  C1, as stated, fails: from the valid state \<open>(0, 10000)\<close> the proposed minimum \<open>-5\<close>
  is committed as it is, and from \<open>(0, 5000)\<close> the proposed minimum \<open>7000\<close> commits
  \<open>(5000, 5000)\<close>, where the two bounds coincide.
\<close>

theorem C1_counterexample:
  "slider_inv \<lparr>range_min = 0, range_max = 10000\<rparr> \<and>
   committed handle \<lparr>range_min = 0, range_max = 10000\<rparr> [MinChange (- 5)]
     = [\<lparr>range_min = - 5, range_max = 10000\<rparr>] \<and>
   \<not> slider_inv \<lparr>range_min = - 5, range_max = 10000\<rparr> \<and>
   slider_inv \<lparr>range_min = 0, range_max = 5000\<rparr> \<and>
   committed handle \<lparr>range_min = 0, range_max = 5000\<rparr> [MinChange 7000]
     = [\<lparr>range_min = 5000, range_max = 5000\<rparr>] \<and>
   \<not> slider_inv \<lparr>range_min = 5000, range_max = 5000\<rparr>"
  by (simp add: slider_inv_def handleMinChange_def)

text \<open>
  C1, amended: from every state with \<open>0 \<le> min < max \<le> 10000\<close> and for every finite
  sequence of min/max updates with arbitrary integer values, every state the guarded
  handlers commit satisfies \<open>min \<le> max\<close>, \<open>min \<le> 9999\<close> and \<open>max \<le> 10000\<close>, and
  \<open>0 \<le> min\<close> as well when no proposed value is negative; every state the unguarded
  handlers of FilterSidebar.tsx commit satisfies \<open>min \<le> max\<close>.
\<close>

theorem C1_slider_invariant:
  assumes "slider_inv r"
  shows "(\<forall>s \<in> set (committed handle r es). upper_inv s) \<and>
         ((\<forall>e \<in> set es. 0 \<le> proposed e) \<longrightarrow>
            (\<forall>s \<in> set (committed handle r es). 0 \<le> range_min s)) \<and>
         (\<forall>s \<in> set (committed handle_tsx r es). range_min s \<le> range_max s)"
proof -
  from assms have u: "upper_inv r" and n: "0 \<le> range_min r" and o: "range_min r \<le> range_max r"
    by (auto simp: slider_inv_def upper_inv_def)
  show ?thesis
    using committed_upper_inv [OF u] committed_nonneg [OF n o] committed_tsx_ordered [OF o]
    by blast
qed

theorem C1_slider_invariant_witness:
  "slider_inv \<lparr>range_min = 500, range_max = 9999\<rparr> \<and>
   committed handle \<lparr>range_min = 500, range_max = 9999\<rparr> [MaxChange 400, MinChange 20000]
     = [\<lparr>range_min = 500, range_max = 500\<rparr>, \<lparr>range_min = 500, range_max = 500\<rparr>] \<and>
   committed handle_tsx \<lparr>range_min = 500, range_max = 9999\<rparr> [MaxChange 400, MinChange 20000]
     = [\<lparr>range_min = 500, range_max = 500\<rparr>, \<lparr>range_min = 500, range_max = 500\<rparr>] \<and>
   upper_inv \<lparr>range_min = 500, range_max = 500\<rparr> \<and>
   0 \<le> range_min \<lparr>range_min = 500, range_max = 500\<rparr> \<and>
   range_min \<lparr>range_min = 500, range_max = 500\<rparr> \<le> range_max \<lparr>range_min = 500, range_max = 500\<rparr>"
proof -
  have h: "slider_inv \<lparr>range_min = 500, range_max = 9999\<rparr>"
    by (simp add: slider_inv_def)
  have p: "\<forall>e \<in> set [MaxChange 400, MinChange 20000]. 0 \<le> proposed e"
    by simp
  have c: "committed handle \<lparr>range_min = 500, range_max = 9999\<rparr> [MaxChange 400, MinChange 20000]
     = [\<lparr>range_min = 500, range_max = 500\<rparr>, \<lparr>range_min = 500, range_max = 500\<rparr>]"
    by (simp add: handleMinChange_def handleMaxChange_def)
  have d: "committed handle_tsx \<lparr>range_min = 500, range_max = 9999\<rparr> [MaxChange 400, MinChange 20000]
     = [\<lparr>range_min = 500, range_max = 500\<rparr>, \<lparr>range_min = 500, range_max = 500\<rparr>]"
    by (simp add: handleMinChange_tsx_def handleMaxChange_tsx_def)
  from C1_slider_invariant [OF h, of "[MaxChange 400, MinChange 20000]"] p h c d
  show ?thesis by simp
qed

text \<open>
  C2, as stated, fails: with the state \<open>(0, 1)\<close> the handler returns before
  committing anything, and with the state \<open>(0, 10000)\<close> the proposed minimum \<open>-5\<close>
  is committed as \<open>-5\<close>, where the specification's clamp gives \<open>0\<close>.
\<close>

theorem C2_counterexample:
  "handleMinChange \<lparr>range_min = 0, range_max = 1\<rparr> 0 = None \<and>
   handleMinChange \<lparr>range_min = 0, range_max = 10000\<rparr> (- 5)
     = Some \<lparr>range_min = - 5, range_max = 10000\<rparr> \<and>
   spec_min_commit \<lparr>range_min = 0, range_max = 10000\<rparr> (- 5) = 0"
  by (simp add: handleMinChange_def spec_min_commit_def)

text \<open>
  C2, amended: when the current maximum is 1 the min handler commits nothing; otherwise,
  for every proposed value \<open>v \<ge> 0\<close>, it commits the value obtained by clamping \<open>v\<close>
  to \<open>[0, 9999]\<close> and then to at most the current maximum, and leaves the maximum as
  it is.
\<close>

theorem C2_min_handler:
  "(range_max r = 1 \<longrightarrow> handleMinChange r v = None) \<and>
   (range_max r \<noteq> 1 \<and> 0 \<le> v \<longrightarrow>
      handleMinChange r v = Some (r\<lparr>range_min := spec_min_commit r v\<rparr>))"
  by (auto simp: handleMinChange_def spec_min_commit_def Let_def)

theorem C2_min_handler_witness:
  "handleMinChange \<lparr>range_min = 3, range_max = 1\<rparr> 0 = None \<and>
   handleMinChange \<lparr>range_min = 0, range_max = 5000\<rparr> 20000
     = Some \<lparr>range_min = 5000, range_max = 5000\<rparr> \<and>
   handleMinChange \<lparr>range_min = 0, range_max = 10000\<rparr> 20000
     = Some \<lparr>range_min = 9999, range_max = 10000\<rparr>"
proof -
  have s: "spec_min_commit \<lparr>range_min = 0, range_max = 5000\<rparr> 20000 = 5000"
    "spec_min_commit \<lparr>range_min = 0, range_max = 10000\<rparr> 20000 = 9999"
    by (simp_all add: spec_min_commit_def)
  from C2_min_handler [of "\<lparr>range_min = 3, range_max = 1\<rparr>" 0]
       C2_min_handler [of "\<lparr>range_min = 0, range_max = 5000\<rparr>" 20000]
       C2_min_handler [of "\<lparr>range_min = 0, range_max = 10000\<rparr>" 20000] s
  show ?thesis by simp
qed

subsection \<open>Sorting with a comparator\<close>

lemma insert_by_asc: "insert_by (\<lambda>a b. f a - f b) x ys = insort_key f x ys"
  by (induction ys) auto

lemma insert_by_desc: "insert_by (\<lambda>a b. f b - f a) x ys = insort_key (\<lambda>a. - f a) x ys"
  by (induction ys) auto

lemma js_sort_asc: "js_sort (\<lambda>a b. f a - f b) xs = sort_key f xs"
  by (induction xs) (simp_all add: js_sort_def insert_by_asc)

lemma js_sort_desc: "js_sort (\<lambda>a b. f b - f a) xs = sort_key (\<lambda>a. - f a) xs"
  by (induction xs) (simp_all add: js_sort_def insert_by_desc)

lemma js_sort_asc_sorted: "sorted_wrt (\<lambda>a b. f a \<le> f b) (js_sort (\<lambda>a b. f a - f b) xs)"
  using sorted_sort_key [of f xs] by (simp add: js_sort_asc sorted_map)

lemma js_sort_desc_sorted: "sorted_wrt (\<lambda>a b. f b \<le> f a) (js_sort (\<lambda>a b. f b - f a) xs)"
  using sorted_sort_key [of "\<lambda>a. - f a" xs] by (simp add: js_sort_desc sorted_map)

lemma js_sort_asc_stable:
  "filter (\<lambda>y. f y = k) (js_sort (\<lambda>a b. f a - f b) xs) = filter (\<lambda>y. f y = k) xs"
  by (simp add: js_sort_asc sort_key_stable)

lemma js_sort_desc_stable:
  "filter (\<lambda>y. f y = k) (js_sort (\<lambda>a b. f b - f a) xs) = filter (\<lambda>y. f y = k) xs"
  using sort_key_stable [of "\<lambda>a. - f a" "- k" xs] by (simp add: js_sort_desc)

lemma js_sort_mset:
  "mset (js_sort (\<lambda>a b. f a - f b) xs) = mset xs"
  "mset (js_sort (\<lambda>a b. f b - f a) xs) = mset xs"
  by (simp_all add: js_sort_asc js_sort_desc)

lemma applySort_mset: "mset (applySort key xs) = mset xs"
  by (simp add: applySort_def js_sort_mset)

lemma applyFilters_eq: "applyFilters c = filter (satisfies c) (allGames c)"
  by (auto simp: applyFilters_def satisfies_def Let_def split: option.splits intro: filter_cong)

lemma getFilteredGames_mset:
  "mset (getFilteredGames c) = filter_mset (satisfies c) (mset (allGames c))"
  by (simp add: getFilteredGames_def applySort_mset applyFilters_eq)

lemma getFilteredGames_set:
  "set (getFilteredGames c) = {g \<in> set (allGames c). satisfies c g}"
  using getFilteredGames_mset [of c] by (metis set_filter set_mset_filter set_mset_mset)

subsection \<open>Catalog pipeline\<close>

text \<open>
  C3: the output of the pipeline holds exactly the games of the input that satisfy all
  active predicates (with their multiplicities), and switching the genre filter off,
  switching the platform filter off, or widening the price range (the price filter has
  no off state) gives an output whose members include those of the previous output.
\<close>

theorem C3_filter_pipeline:
  "mset (getFilteredGames c) = filter_mset (satisfies c) (mset (allGames c)) \<and>
   set (getFilteredGames c) \<subseteq> set (getFilteredGames (c\<lparr>selectedGenre := None\<rparr>)) \<and>
   set (getFilteredGames c) \<subseteq> set (getFilteredGames (c\<lparr>selectedPlatform := None\<rparr>)) \<and>
   (lo \<le> minPrice c \<and> maxPrice c \<le> hi \<longrightarrow>
      set (getFilteredGames c) \<subseteq> set (getFilteredGames (c\<lparr>minPrice := lo, maxPrice := hi\<rparr>)))"
proof -
  have g: "set (getFilteredGames c) \<subseteq> set (getFilteredGames (c\<lparr>selectedGenre := None\<rparr>))"
    by (auto simp: getFilteredGames_set satisfies_def split: option.splits)
  have p: "set (getFilteredGames c) \<subseteq> set (getFilteredGames (c\<lparr>selectedPlatform := None\<rparr>))"
    by (auto simp: getFilteredGames_set satisfies_def split: option.splits)
  have r: "set (getFilteredGames c) \<subseteq> set (getFilteredGames (c\<lparr>minPrice := lo, maxPrice := hi\<rparr>))"
    if "lo \<le> minPrice c" "maxPrice c \<le> hi"
    using that by (auto simp: getFilteredGames_set satisfies_def split: option.splits)
  from g p r getFilteredGames_mset [of c] show ?thesis by blast
qed

lemma sample_eval:
  "getFilteredGames sample_catalog = [sample_game 1 30 4 100 7 1]"
  "getFilteredGames (sample_catalog\<lparr>selectedGenre := None\<rparr>)
     = [sample_game 1 30 4 100 7 1, sample_game 3 30 5 200 8 1]"
  "getFilteredGames (sample_catalog\<lparr>selectedPlatform := None\<rparr>)
     = [sample_game 2 10 0 300 7 2, sample_game 1 30 4 100 7 1]"
  "getFilteredGames (sample_catalog\<lparr>minPrice := - 1, maxPrice := 1000\<rparr>)
     = [sample_game 1 30 4 100 7 1, sample_game 4 900 3 50 7 1]"
  by (simp_all add: getFilteredGames_def applySort_def applyFilters_def sample_catalog_def
        sample_game_def js_sort_def)

theorem C3_filter_pipeline_witness:
  "getFilteredGames sample_catalog = [sample_game 1 30 4 100 7 1] \<and>
   getFilteredGames (sample_catalog\<lparr>selectedGenre := None\<rparr>)
     = [sample_game 1 30 4 100 7 1, sample_game 3 30 5 200 8 1] \<and>
   getFilteredGames (sample_catalog\<lparr>selectedPlatform := None\<rparr>)
     = [sample_game 2 10 0 300 7 2, sample_game 1 30 4 100 7 1] \<and>
   getFilteredGames (sample_catalog\<lparr>minPrice := - 1, maxPrice := 1000\<rparr>)
     = [sample_game 1 30 4 100 7 1, sample_game 4 900 3 50 7 1] \<and>
   set (getFilteredGames sample_catalog)
     \<subseteq> set (getFilteredGames (sample_catalog\<lparr>minPrice := - 1, maxPrice := 1000\<rparr>)) \<and>
   mset (getFilteredGames sample_catalog)
     = filter_mset (satisfies sample_catalog) (mset (allGames sample_catalog))"
proof -
  have h: "- 1 \<le> minPrice sample_catalog \<and> maxPrice sample_catalog \<le> 1000"
    by (simp add: sample_catalog_def)
  from C3_filter_pipeline [of sample_catalog "- 1" 1000] h
  have "set (getFilteredGames sample_catalog)
     \<subseteq> set (getFilteredGames (sample_catalog\<lparr>minPrice := - 1, maxPrice := 1000\<rparr>)) \<and>
   mset (getFilteredGames sample_catalog)
     = filter_mset (satisfies sample_catalog) (mset (allGames sample_catalog))"
    by blast
  with sample_eval show ?thesis by blast
qed

text \<open>
  C4: \<open>newest\<close> and \<open>oldest\<close> order by release date descending and ascending,
  \<open>price-asc\<close> and \<open>price-desc\<close> by price ascending and descending, \<open>rating\<close> by
  rating descending; the games of any one key value stay in the order they had before
  sorting; any other sort key returns the filtered sequence as it is; the sorted sequence
  is a permutation of the filtered one.
\<close>

theorem C4_sort_order:
  "(sortBy c = ''newest'' \<longrightarrow>
      sorted_wrt (\<lambda>a b. release_date b \<le> release_date a) (getFilteredGames c) \<and>
      filter (\<lambda>g. release_date g = d) (getFilteredGames c)
        = filter (\<lambda>g. release_date g = d) (applyFilters c)) \<and>
   (sortBy c = ''oldest'' \<longrightarrow>
      sorted_wrt (\<lambda>a b. release_date a \<le> release_date b) (getFilteredGames c) \<and>
      filter (\<lambda>g. release_date g = d) (getFilteredGames c)
        = filter (\<lambda>g. release_date g = d) (applyFilters c)) \<and>
   (sortBy c = ''price-asc'' \<longrightarrow>
      sorted_wrt (\<lambda>a b. price a \<le> price b) (getFilteredGames c) \<and>
      filter (\<lambda>g. price g = p) (getFilteredGames c)
        = filter (\<lambda>g. price g = p) (applyFilters c)) \<and>
   (sortBy c = ''price-desc'' \<longrightarrow>
      sorted_wrt (\<lambda>a b. price b \<le> price a) (getFilteredGames c) \<and>
      filter (\<lambda>g. price g = p) (getFilteredGames c)
        = filter (\<lambda>g. price g = p) (applyFilters c)) \<and>
   (sortBy c = ''rating'' \<longrightarrow>
      sorted_wrt (\<lambda>a b. rating b \<le> rating a) (getFilteredGames c) \<and>
      filter (\<lambda>g. rating g = r) (getFilteredGames c)
        = filter (\<lambda>g. rating g = r) (applyFilters c)) \<and>
   (sortBy c \<notin> {''newest'', ''oldest'', ''price-asc'', ''price-desc'', ''rating''} \<longrightarrow>
      getFilteredGames c = applyFilters c) \<and>
   mset (getFilteredGames c) = mset (applyFilters c)"
  by (simp add: getFilteredGames_def applySort_def js_sort_asc_sorted js_sort_desc_sorted
        js_sort_asc_stable js_sort_desc_stable js_sort_mset)

lemma sample_sorts:
  "getFilteredGames (sample_catalog\<lparr>selectedGenre := None, maxPrice := 1000, sortBy := ''newest''\<rparr>)
     = [sample_game 3 30 5 200 8 1, sample_game 1 30 4 100 7 1, sample_game 4 900 3 50 7 1]"
  "getFilteredGames (sample_catalog\<lparr>selectedGenre := None, maxPrice := 1000, sortBy := ''oldest''\<rparr>)
     = [sample_game 4 900 3 50 7 1, sample_game 1 30 4 100 7 1, sample_game 3 30 5 200 8 1]"
  "getFilteredGames (sample_catalog\<lparr>selectedGenre := None, maxPrice := 1000, sortBy := ''price-asc''\<rparr>)
     = [sample_game 1 30 4 100 7 1, sample_game 3 30 5 200 8 1, sample_game 4 900 3 50 7 1]"
  "getFilteredGames (sample_catalog\<lparr>selectedGenre := None, maxPrice := 1000, sortBy := ''price-desc''\<rparr>)
     = [sample_game 4 900 3 50 7 1, sample_game 1 30 4 100 7 1, sample_game 3 30 5 200 8 1]"
  "getFilteredGames (sample_catalog\<lparr>selectedGenre := None, maxPrice := 1000, sortBy := ''rating''\<rparr>)
     = [sample_game 3 30 5 200 8 1, sample_game 1 30 4 100 7 1, sample_game 4 900 3 50 7 1]"
  "getFilteredGames (sample_catalog\<lparr>selectedGenre := None, maxPrice := 1000, sortBy := ''title''\<rparr>)
     = [sample_game 1 30 4 100 7 1, sample_game 3 30 5 200 8 1, sample_game 4 900 3 50 7 1]"
  by (simp_all add: getFilteredGames_def applySort_def applyFilters_def sample_catalog_def
        sample_game_def js_sort_def)

theorem C4_sort_order_witness:
  "getFilteredGames (sample_catalog\<lparr>selectedGenre := None, maxPrice := 1000, sortBy := ''newest''\<rparr>)
     = [sample_game 3 30 5 200 8 1, sample_game 1 30 4 100 7 1, sample_game 4 900 3 50 7 1] \<and>
   getFilteredGames (sample_catalog\<lparr>selectedGenre := None, maxPrice := 1000, sortBy := ''oldest''\<rparr>)
     = [sample_game 4 900 3 50 7 1, sample_game 1 30 4 100 7 1, sample_game 3 30 5 200 8 1] \<and>
   getFilteredGames (sample_catalog\<lparr>selectedGenre := None, maxPrice := 1000, sortBy := ''price-asc''\<rparr>)
     = [sample_game 1 30 4 100 7 1, sample_game 3 30 5 200 8 1, sample_game 4 900 3 50 7 1] \<and>
   getFilteredGames (sample_catalog\<lparr>selectedGenre := None, maxPrice := 1000, sortBy := ''price-desc''\<rparr>)
     = [sample_game 4 900 3 50 7 1, sample_game 1 30 4 100 7 1, sample_game 3 30 5 200 8 1] \<and>
   getFilteredGames (sample_catalog\<lparr>selectedGenre := None, maxPrice := 1000, sortBy := ''rating''\<rparr>)
     = [sample_game 3 30 5 200 8 1, sample_game 1 30 4 100 7 1, sample_game 4 900 3 50 7 1] \<and>
   getFilteredGames (sample_catalog\<lparr>selectedGenre := None, maxPrice := 1000, sortBy := ''title''\<rparr>)
     = applyFilters (sample_catalog\<lparr>selectedGenre := None, maxPrice := 1000, sortBy := ''title''\<rparr>) \<and>
   sorted_wrt (\<lambda>a b. price a \<le> price b)
     (getFilteredGames (sample_catalog\<lparr>selectedGenre := None, maxPrice := 1000, sortBy := ''price-asc''\<rparr>)) \<and>
   filter (\<lambda>g. price g = 30)
     (getFilteredGames (sample_catalog\<lparr>selectedGenre := None, maxPrice := 1000, sortBy := ''price-desc''\<rparr>))
     = filter (\<lambda>g. price g = 30)
         (applyFilters (sample_catalog\<lparr>selectedGenre := None, maxPrice := 1000, sortBy := ''price-desc''\<rparr>))"
proof -
  have a: "sorted_wrt (\<lambda>a b. price a \<le> price b)
     (getFilteredGames (sample_catalog\<lparr>selectedGenre := None, maxPrice := 1000, sortBy := ''price-asc''\<rparr>))"
    using C4_sort_order
      [of "sample_catalog\<lparr>selectedGenre := None, maxPrice := 1000, sortBy := ''price-asc''\<rparr>"]
    by simp
  have d: "filter (\<lambda>g. price g = 30)
     (getFilteredGames (sample_catalog\<lparr>selectedGenre := None, maxPrice := 1000, sortBy := ''price-desc''\<rparr>))
     = filter (\<lambda>g. price g = 30)
         (applyFilters (sample_catalog\<lparr>selectedGenre := None, maxPrice := 1000, sortBy := ''price-desc''\<rparr>))"
    using C4_sort_order
      [of "sample_catalog\<lparr>selectedGenre := None, maxPrice := 1000, sortBy := ''price-desc''\<rparr>" _ 30]
    by simp
  have u: "getFilteredGames (sample_catalog\<lparr>selectedGenre := None, maxPrice := 1000, sortBy := ''title''\<rparr>)
     = applyFilters (sample_catalog\<lparr>selectedGenre := None, maxPrice := 1000, sortBy := ''title''\<rparr>)"
    using C4_sort_order
      [of "sample_catalog\<lparr>selectedGenre := None, maxPrice := 1000, sortBy := ''title''\<rparr>"]
    by simp
  from a d u sample_sorts(1-5) show ?thesis by blast
qed

subsection \<open>Top rated games\<close>

lemma filter_take_sorted:
  "sorted (map f ys) \<Longrightarrow>
   filter (\<lambda>x. f x < c) (take n ys) = take n (filter (\<lambda>x. f x < c) ys)"
proof (induction ys arbitrary: n)
  case Nil
  then show ?case by simp
next
  case (Cons y ys)
  show ?case
  proof (cases n)
    case 0
    then show ?thesis by simp
  next
    case (Suc m)
    show ?thesis
    proof (cases "f y < c")
      case True
      with Cons Suc show ?thesis by simp
    next
      case False
      with Cons.prems have "\<forall>z \<in> set ys. \<not> f z < c" by auto
      then have "filter (\<lambda>x. f x < c) ys = []" "filter (\<lambda>x. f x < c) (take m ys) = []"
        by (auto simp: filter_empty_conv dest: in_set_takeD)
      with False Suc show ?thesis by simp
    qed
  qed
qed

lemma top_rated_general:
  "filter (\<lambda>game. 0 < rating game) (take N (js_sort (\<lambda>a b. rating b - rating a) games))
     = take N (js_sort (\<lambda>a b. rating b - rating a) (filter (\<lambda>game. 0 < rating game) games))"
proof -
  have "filter (\<lambda>game. - rating game < 0) (take N (sort_key (\<lambda>a. - rating a) games))
          = take N (filter (\<lambda>game. - rating game < 0) (sort_key (\<lambda>a. - rating a) games))"
    by (rule filter_take_sorted) simp
  then show ?thesis by (simp add: js_sort_desc filter_sort)
qed

lemma top_rated_length:
  "N \<le> length (filter (\<lambda>game. 0 < rating game) games) \<Longrightarrow>
   length (filter (\<lambda>game. 0 < rating game) (take N (js_sort (\<lambda>a b. rating b - rating a) games))) = N"
  unfolding top_rated_general by (simp add: js_sort_desc)

lemma top_rated_nonneg:
  assumes "\<forall>g \<in> set games. 0 \<le> rating g"
  shows "filter (\<lambda>game. 0 < rating game) (take N (js_sort (\<lambda>a b. rating b - rating a) games))
           = top_rated_spec N games"
proof -
  from assms have "filter (\<lambda>game. 0 < rating game) games = filter (\<lambda>game. rating game \<noteq> 0) games"
    by (intro filter_cong) auto
  then show ?thesis by (simp add: top_rated_general top_rated_spec_def)
qed

text \<open>
  C8: both top-rated lists equal the first \<open>N\<close> (6 and 3) of the positively rated
  games in descending rating order; for a collection with no negative rating this is
  the list obtained by excluding the games rated 0, ordering by rating descending and
  taking \<open>N\<close>. No game rated 0 is in the list, and the list has \<open>N\<close> entries whenever
  \<open>N\<close> games are rated above 0.
\<close>

theorem C8_top_rated:
  "topRatedGames_6 games
     = take 6 (js_sort (\<lambda>a b. rating b - rating a) (filter (\<lambda>game. 0 < rating game) games)) \<and>
   topRatedGames_3 games
     = take 3 (js_sort (\<lambda>a b. rating b - rating a) (filter (\<lambda>game. 0 < rating game) games)) \<and>
   ((\<forall>g \<in> set games. 0 \<le> rating g) \<longrightarrow>
      topRatedGames_6 games = top_rated_spec 6 games \<and>
      topRatedGames_3 games = top_rated_spec 3 games) \<and>
   (\<forall>g \<in> set (topRatedGames_6 games) \<union> set (topRatedGames_3 games). rating g \<noteq> 0) \<and>
   (6 \<le> length (filter (\<lambda>game. 0 < rating game) games) \<longrightarrow> length (topRatedGames_6 games) = 6) \<and>
   (3 \<le> length (filter (\<lambda>game. 0 < rating game) games) \<longrightarrow> length (topRatedGames_3 games) = 3)"
proof -
  have z: "\<forall>g \<in> set (topRatedGames_6 games) \<union> set (topRatedGames_3 games). rating g \<noteq> 0"
    by (auto simp: topRatedGames_6_def topRatedGames_3_def)
  show ?thesis
    using z top_rated_general [of 6 games] top_rated_general [of 3 games]
      top_rated_nonneg [of games 6] top_rated_nonneg [of games 3]
      top_rated_length [of 6 games] top_rated_length [of 3 games]
    unfolding topRatedGames_6_def [symmetric] topRatedGames_3_def [symmetric]
    by blast
qed

lemma sample_top_rated:
  "topRatedGames_6 sample_ratings
     = [sample_game 6 10 5 0 1 1, sample_game 5 10 4 0 1 1, sample_game 4 10 3 0 1 1,
        sample_game 3 10 2 0 1 1, sample_game 7 10 2 0 1 1, sample_game 1 10 1 0 1 1]"
  "topRatedGames_3 sample_ratings
     = [sample_game 6 10 5 0 1 1, sample_game 5 10 4 0 1 1, sample_game 4 10 3 0 1 1]"
  by (simp_all add: topRatedGames_6_def topRatedGames_3_def sample_ratings_def
        sample_game_def js_sort_def)

theorem C8_top_rated_witness:
  "topRatedGames_6 sample_ratings
     = [sample_game 6 10 5 0 1 1, sample_game 5 10 4 0 1 1, sample_game 4 10 3 0 1 1,
        sample_game 3 10 2 0 1 1, sample_game 7 10 2 0 1 1, sample_game 1 10 1 0 1 1] \<and>
   topRatedGames_3 sample_ratings
     = [sample_game 6 10 5 0 1 1, sample_game 5 10 4 0 1 1, sample_game 4 10 3 0 1 1] \<and>
   topRatedGames_6 sample_ratings = top_rated_spec 6 sample_ratings \<and>
   topRatedGames_3 sample_ratings = top_rated_spec 3 sample_ratings \<and>
   length (topRatedGames_6 sample_ratings) = 6 \<and>
   length (topRatedGames_3 sample_ratings) = 3"
proof -
  have n: "\<forall>g \<in> set sample_ratings. 0 \<le> rating g"
    by (simp add: sample_ratings_def sample_game_def)
  have l: "6 \<le> length (filter (\<lambda>game. 0 < rating game) sample_ratings)"
          "3 \<le> length (filter (\<lambda>game. 0 < rating game) sample_ratings)"
    by (simp_all add: sample_ratings_def sample_game_def)
  from C8_top_rated [of sample_ratings] n l sample_top_rated show ?thesis by blast
qed

subsection \<open>API client\<close>

text \<open>
  C5, as stated, fails: a non-2xx response whose body is not JSON raises the message
  \<open>Unknown error\<close>, not a message with the status; and the fallback for a JSON body
  without a detail reads \<open>HTTP error! status: 404\<close>.
\<close>

theorem C5_counterexample:
  "\<not> ok \<lparr>status = 500, json_body = Inl (SyntaxError ''Unexpected token <'')\<rparr> \<and>
   snd (getGameById ''/api''
          (\<lambda>req. Inr \<lparr>status = 500, json_body = Inl (SyntaxError ''Unexpected token <'')\<rparr>) 7)
     = Inl (Error ''Unknown error'') \<and>
   ''Unknown error'' \<noteq> ''HTTP error: 500'' \<and>
   \<not> ok \<lparr>status = 404, json_body = Inr (JObj [])\<rparr> \<and>
   snd (getGameById ''/api'' (\<lambda>req. Inr \<lparr>status = 404, json_body = Inr (JObj [])\<rparr>) 7)
     = Inl (Error ''HTTP error! status: 404'') \<and>
   ''HTTP error! status: 404'' \<noteq> ''HTTP error: 404''"
  by (simp add: getGameById_def request_def ok_def or_else_def show_int_def digit_char_def)

text \<open>
  C5, amended: a call that receives a non-2xx response raises an error and returns no
  value, after exactly one request. If the body does not parse as JSON the message is
  \<open>Unknown error\<close>; if it parses to an object with a non-empty string \<open>detail\<close> the
  message is that string; if it parses to an object with no \<open>detail\<close> or an empty one
  the message is \<open>HTTP error! status: \<close> followed by the status.
\<close>

theorem C5_error_message:
  assumes "\<not> ok r"
  shows "(json_body r = Inl e \<longrightarrow>
            snd (request base (\<lambda>req. Inr r) endpoint options) = Inl (Error ''Unknown error'')) \<and>
         (json_body r = Inr (JObj kvs) \<and> map_of kvs ''detail'' = Some (JStr d) \<and> d \<noteq> [] \<longrightarrow>
            snd (request base (\<lambda>req. Inr r) endpoint options) = Inl (Error d)) \<and>
         (json_body r = Inr (JObj kvs) \<and>
            (map_of kvs ''detail'' = None \<or> map_of kvs ''detail'' = Some (JStr [])) \<longrightarrow>
            snd (request base (\<lambda>req. Inr r) endpoint options)
              = Inl (Error (''HTTP error! status: '' @ show_int (status r)))) \<and>
         (\<exists>err. snd (request base (\<lambda>req. Inr r) endpoint options) = Inl err) \<and>
         length (fst (request base (\<lambda>req. Inr r) endpoint options)) = 1"
proof -
  have raised: "\<exists>err. snd (request base (\<lambda>req. Inr r) endpoint options) = Inl err"
    using assms by (auto simp: request_def Let_def split: sum.splits)
  have unparsed: "snd (request base (\<lambda>req. Inr r) endpoint options) = Inl (Error ''Unknown error'')"
    if "json_body r = Inl e"
    using assms that by (simp add: request_def Let_def or_else_def)
  have detail: "snd (request base (\<lambda>req. Inr r) endpoint options) = Inl (Error d)"
    if "json_body r = Inr (JObj kvs)" "map_of kvs ''detail'' = Some (JStr d)" "d \<noteq> []"
    using assms that by (simp add: request_def Let_def or_else_def)
  have generic: "snd (request base (\<lambda>req. Inr r) endpoint options)
              = Inl (Error (''HTTP error! status: '' @ show_int (status r)))"
    if "json_body r = Inr (JObj kvs)"
       "map_of kvs ''detail'' = None \<or> map_of kvs ''detail'' = Some (JStr [])"
    using assms that by (auto simp: request_def Let_def or_else_def)
  have once: "length (fst (request base (\<lambda>req. Inr r) endpoint options)) = 1"
    by (simp add: request_def Let_def)
  from raised unparsed detail generic once show ?thesis by blast
qed

theorem C5_error_message_witness:
  "\<not> ok \<lparr>status = 404, json_body = Inr (JObj [(''detail'', JStr ''Game not found'')])\<rparr> \<and>
   snd (request ''/api''
          (\<lambda>req. Inr \<lparr>status = 404, json_body = Inr (JObj [(''detail'', JStr ''Game not found'')])\<rparr>)
          ''/games/7'' None)
     = Inl (Error ''Game not found'') \<and>
   \<not> ok \<lparr>status = 502, json_body = Inl (SyntaxError ''Unexpected token <'')\<rparr> \<and>
   snd (request ''/api''
          (\<lambda>req. Inr \<lparr>status = 502, json_body = Inl (SyntaxError ''Unexpected token <'')\<rparr>)
          ''/games/7'' None)
     = Inl (Error ''Unknown error'') \<and>
   \<not> ok \<lparr>status = 404, json_body = Inr (JObj [(''detail'', JStr [])])\<rparr> \<and>
   snd (request ''/api''
          (\<lambda>req. Inr \<lparr>status = 404, json_body = Inr (JObj [(''detail'', JStr [])])\<rparr>)
          ''/games/7'' None)
     = Inl (Error ''HTTP error! status: 404'')"
proof -
  have h1: "\<not> ok \<lparr>status = 404, json_body = Inr (JObj [(''detail'', JStr ''Game not found'')])\<rparr>"
    and h2: "\<not> ok \<lparr>status = 502, json_body = Inl (SyntaxError ''Unexpected token <'')\<rparr>"
    and h3: "\<not> ok \<lparr>status = 404, json_body = Inr (JObj [(''detail'', JStr [])])\<rparr>"
    by (simp_all add: ok_def)
  have s: "show_int 404 = ''404''"
    by (simp add: show_int_def digit_char_def)
  have a: "snd (request ''/api''
          (\<lambda>req. Inr \<lparr>status = 404, json_body = Inr (JObj [(''detail'', JStr ''Game not found'')])\<rparr>)
          ''/games/7'' None)
     = Inl (Error ''Game not found'')"
    using C5_error_message [OF h1, where kvs = "[(''detail'', JStr ''Game not found'')]"
         and d = "''Game not found''" and base = "''/api''" and endpoint = "''/games/7''"
         and options = None]
    by simp
  have b: "snd (request ''/api''
          (\<lambda>req. Inr \<lparr>status = 502, json_body = Inl (SyntaxError ''Unexpected token <'')\<rparr>)
          ''/games/7'' None)
     = Inl (Error ''Unknown error'')"
    using C5_error_message [OF h2, where e = "SyntaxError ''Unexpected token <''"
         and base = "''/api''" and endpoint = "''/games/7''" and options = None]
    by simp
  have c: "snd (request ''/api''
          (\<lambda>req. Inr \<lparr>status = 404, json_body = Inr (JObj [(''detail'', JStr [])])\<rparr>)
          ''/games/7'' None)
     = Inl (Error ''HTTP error! status: 404'')"
    using C5_error_message [OF h3, where kvs = "[(''detail'', JStr [])]"
         and base = "''/api''" and endpoint = "''/games/7''" and options = None] s
    by simp
  from h1 h2 h3 a b c show ?thesis by blast
qed



subsection \<open>Profile joins\<close>

lemma ordersWithGames_length: "length (ordersWithGames games data) = length data"
  by (simp add: ordersWithGames_def)

lemma ordersWithGames_nth:
  "i < length data \<Longrightarrow>
   order.truncate (ordersWithGames games data ! i) = data ! i \<and>
   gameTitle (ordersWithGames games data ! i)
     = (case find (\<lambda>g. g_id g = o_game_id (data ! i)) games of
          Some g \<Rightarrow> title g
        | None \<Rightarrow> placeholder (o_game_id (data ! i)))"
  by (simp add: ordersWithGames_def Let_def order.defs order_row.defs)

lemma userGames_resolving:
  "userGames games library
     = userGames games
         (filter (\<lambda>lib. find (\<lambda>game. g_id game = l_game_id lib) games \<noteq> None) library)"
  by (induction library) (auto simp: userGames_def split: option.splits)

lemma userGames_length:
  "length (userGames games library)
     = length (filter (\<lambda>lib. find (\<lambda>game. g_id game = l_game_id lib) games \<noteq> None) library)"
  by (induction library) (auto simp: userGames_def split: option.splits)

lemma userGames_found:
  "map Some (userGames games library)
     = filter (\<lambda>found. found \<noteq> None)
         (map (\<lambda>lib. find (\<lambda>game. g_id game = l_game_id lib) games) library)"
  by (induction library) (auto simp: userGames_def split: option.splits)

lemma find_in_set: "find P xs = Some x \<Longrightarrow> x \<in> set xs"
  by (induction xs) (auto split: if_splits)

lemma userGames_catalog: "g \<in> set (userGames games library) \<Longrightarrow> g \<in> set games"
  by (induction library) (auto simp: userGames_def split: option.splits dest: find_in_set)

text \<open>
  C6, as stated, fails for library entries: an entry whose game is not in the catalog is
  removed from the displayed library, it gets no placeholder.
\<close>

theorem C6_counterexample:
  "find (\<lambda>game. g_id game = 999) [sample_game 1 30 4 100 7 1] = None \<and>
   loadLibrary (Some 5)
     (Inr [\<lparr>l_user_id = 5, l_game_id = 999\<rparr>, \<lparr>l_user_id = 5, l_game_id = 1\<rparr>])
     [sample_game 1 30 4 100 7 1]
     = Some [sample_game 1 30 4 100 7 1]"
  by (simp add: loadLibrary_def userGames_def sample_game_def)

text \<open>
  C6, amended: every fetched order is kept, in order, with its own fields, and its title
  is the catalog title when its game resolves and \<open>#\<close> followed by the game id when it
  does not; a review whose game does not resolve is labelled the same way; the displayed
  library holds, in the order of the entries, the catalog game found for each entry that
  resolves, and nothing for the others.
\<close>

theorem C6_profile_join:
  "loadOrders (Some uid) (Inr data) games = Some (ordersWithGames games data) \<and>
   loadLibrary (Some uid) (Inr library) games = Some (userGames games library) \<and>
   loadUserReviews (Some uid) (Inr allReviews)
     = Some (filter (\<lambda>review. r_user_id review = uid) allReviews) \<and>
   length (ordersWithGames games data) = length data \<and>
   (i < length data \<longrightarrow> order.truncate (ordersWithGames games data ! i) = data ! i) \<and>
   (i < length data \<and> find (\<lambda>g. g_id g = o_game_id (data ! i)) games = None \<longrightarrow>
      gameTitle (ordersWithGames games data ! i) = CHR ''#'' # show_int (o_game_id (data ! i))) \<and>
   (i < length data \<and> find (\<lambda>g. g_id g = o_game_id (data ! i)) games = Some g \<longrightarrow>
      gameTitle (ordersWithGames games data ! i) = title g) \<and>
   (find (\<lambda>g. g_id g = r_game_id review) games = None \<longrightarrow>
      reviewTitle games review = CHR ''#'' # show_int (r_game_id review)) \<and>
   map Some (userGames games library)
     = filter (\<lambda>found. found \<noteq> None)
         (map (\<lambda>lib. find (\<lambda>game. g_id game = l_game_id lib) games) library) \<and>
   (\<forall>shown \<in> set (userGames games library). shown \<in> set games) \<and>
   userGames games library
     = userGames games
         (filter (\<lambda>lib. find (\<lambda>game. g_id game = l_game_id lib) games \<noteq> None) library) \<and>
   length (userGames games library)
     = length (filter (\<lambda>lib. find (\<lambda>game. g_id game = l_game_id lib) games \<noteq> None) library)"
proof -
  have loaders:
    "loadOrders (Some uid) (Inr data) games = Some (ordersWithGames games data) \<and>
     loadLibrary (Some uid) (Inr library) games = Some (userGames games library) \<and>
     loadUserReviews (Some uid) (Inr allReviews)
       = Some (filter (\<lambda>review. r_user_id review = uid) allReviews)"
    by (simp add: loadOrders_def loadLibrary_def loadUserReviews_def)
  have orders:
    "length (ordersWithGames games data) = length data \<and>
     (i < length data \<longrightarrow> order.truncate (ordersWithGames games data ! i) = data ! i) \<and>
     (i < length data \<and> find (\<lambda>g. g_id g = o_game_id (data ! i)) games = None \<longrightarrow>
        gameTitle (ordersWithGames games data ! i) = CHR ''#'' # show_int (o_game_id (data ! i))) \<and>
     (i < length data \<and> find (\<lambda>g. g_id g = o_game_id (data ! i)) games = Some g \<longrightarrow>
        gameTitle (ordersWithGames games data ! i) = title g)"
    using ordersWithGames_nth [of i data games]
    by (auto simp: ordersWithGames_length placeholder_def)
  have reviews:
    "find (\<lambda>g. g_id g = r_game_id review) games = None \<longrightarrow>
       reviewTitle games review = CHR ''#'' # show_int (r_game_id review)"
    by (simp add: reviewTitle_def placeholder_def)
  have shown: "\<forall>shown \<in> set (userGames games library). shown \<in> set games"
    by (blast intro: userGames_catalog)
  from loaders orders reviews shown userGames_found [of games library]
    userGames_resolving [of games library] userGames_length [of games library]
  show ?thesis by blast
qed

theorem C6_profile_join_witness:
  "find (\<lambda>g. g_id g = 999) [sample_game 1 30 4 100 7 1] = None \<and>
   length (ordersWithGames [sample_game 1 30 4 100 7 1] [sample_order 1 999, sample_order 2 1]) = 2 \<and>
   o_game_id (ordersWithGames [sample_game 1 30 4 100 7 1] [sample_order 1 999, sample_order 2 1] ! 0)
     = 999 \<and>
   gameTitle (ordersWithGames [sample_game 1 30 4 100 7 1] [sample_order 1 999, sample_order 2 1] ! 0)
     = ''#999'' \<and>
   reviewTitle [sample_game 1 30 4 100 7 1]
     \<lparr>r_id = 1, r_user_id = 5, r_game_id = 999, r_rating = 4, comment = ''fine''\<rparr> = ''#999'' \<and>
   map Some (userGames [sample_game 1 30 4 100 7 1, sample_game 2 10 0 300 7 2]
               [\<lparr>l_user_id = 5, l_game_id = 999\<rparr>, \<lparr>l_user_id = 5, l_game_id = 2\<rparr>,
                \<lparr>l_user_id = 5, l_game_id = 1\<rparr>])
     = [Some (sample_game 2 10 0 300 7 2), Some (sample_game 1 30 4 100 7 1)]"
proof -
  have f: "find (\<lambda>g. g_id g = 999) [sample_game 1 30 4 100 7 1] = None"
    by (simp add: sample_game_def)
  have s: "show_int 999 = ''999''"
    by (simp add: show_int_def digit_char_def)
  have o: "o_game_id (sample_order 1 999) = 999"
    by (simp add: sample_order_def)
  have e: "o_game_id (ordersWithGames [sample_game 1 30 4 100 7 1]
                        [sample_order 1 999, sample_order 2 1] ! 0) = 999"
    by (simp add: ordersWithGames_def sample_order_def order.defs order_row.defs)
  note t = C6_profile_join [where games = "[sample_game 1 30 4 100 7 1]"
         and data = "[sample_order 1 999, sample_order 2 1]" and i = 0
         and review = "\<lparr>r_id = 1, r_user_id = 5, r_game_id = 999, r_rating = 4, comment = ''fine''\<rparr>"]
  note u = C6_profile_join [where games = "[sample_game 1 30 4 100 7 1, sample_game 2 10 0 300 7 2]"
         and library = "[\<lparr>l_user_id = 5, l_game_id = 999\<rparr>, \<lparr>l_user_id = 5, l_game_id = 2\<rparr>,
                         \<lparr>l_user_id = 5, l_game_id = 1\<rparr>]"]
  from t have l: "length (ordersWithGames [sample_game 1 30 4 100 7 1]
                            [sample_order 1 999, sample_order 2 1]) = 2"
    by simp
  from t f o s have g: "gameTitle (ordersWithGames [sample_game 1 30 4 100 7 1]
                            [sample_order 1 999, sample_order 2 1] ! 0) = ''#999''"
    by simp
  from t f s have r: "reviewTitle [sample_game 1 30 4 100 7 1]
     \<lparr>r_id = 1, r_user_id = 5, r_game_id = 999, r_rating = 4, comment = ''fine''\<rparr> = ''#999''"
    by simp
  from u have
    "map Some (userGames [sample_game 1 30 4 100 7 1, sample_game 2 10 0 300 7 2]
               [\<lparr>l_user_id = 5, l_game_id = 999\<rparr>, \<lparr>l_user_id = 5, l_game_id = 2\<rparr>,
                \<lparr>l_user_id = 5, l_game_id = 1\<rparr>])
     = filter (\<lambda>found. found \<noteq> None)
         (map (\<lambda>lib. find (\<lambda>game. g_id game = l_game_id lib)
                        [sample_game 1 30 4 100 7 1, sample_game 2 10 0 300 7 2])
              [\<lparr>l_user_id = 5, l_game_id = 999\<rparr>, \<lparr>l_user_id = 5, l_game_id = 2\<rparr>,
               \<lparr>l_user_id = 5, l_game_id = 1\<rparr>])"
    by blast
  also have "\<dots> = [Some (sample_game 2 10 0 300 7 2), Some (sample_game 1 30 4 100 7 1)]"
    by (simp add: sample_game_def)
  finally have v:
    "map Some (userGames [sample_game 1 30 4 100 7 1, sample_game 2 10 0 300 7 2]
               [\<lparr>l_user_id = 5, l_game_id = 999\<rparr>, \<lparr>l_user_id = 5, l_game_id = 2\<rparr>,
                \<lparr>l_user_id = 5, l_game_id = 1\<rparr>])
     = [Some (sample_game 2 10 0 300 7 2), Some (sample_game 1 30 4 100 7 1)]" .
  from f l e g r v show ?thesis by blast
qed

subsection \<open>Featured games\<close>

lemma map_of_assign: "map_of (assign k v kvs) = (map_of kvs)(k \<mapsto> v)"
  by (induction kvs) auto

lemma keys_assign: "fst ` set (assign k v kvs) = insert k (fst ` set kvs)"
  by (induction kvs) (force split: if_splits)+

lemma distinct_assign: "distinct (map fst kvs) \<Longrightarrow> distinct (map fst (assign k v kvs))"
proof (induction kvs)
  case Nil
  then show ?case by simp
next
  case (Cons p kvs)
  obtain k' v' where p: "p = (k', v')" by (cases p)
  show ?case
  proof (cases "k = k'")
    case True
    with Cons.prems p show ?thesis by simp
  next
    case False
    from Cons.prems p have "k' \<notin> fst ` set kvs" by simp
    with False have "k' \<notin> fst ` set (assign k v kvs)" by (simp add: keys_assign)
    with Cons p False show ?thesis by simp
  qed
qed

lemma map_of_bump:
  "map_of (bump pc i) k
     = (if k = i then Some ((case map_of pc i of None \<Rightarrow> 0 | Some n \<Rightarrow> n) + 1)
        else map_of pc k)"
  by (simp add: bump_def map_of_assign)

lemma map_of_fold_bump:
  "map_of (fold (\<lambda>i pc. bump pc i) ids pc) k
     = (if k \<in> set ids
        then Some ((case map_of pc k of None \<Rightarrow> 0 | Some n \<Rightarrow> n) + int (count_list ids k))
        else map_of pc k)"
proof (induction ids arbitrary: pc)
  case Nil
  then show ?case by simp
next
  case (Cons i ids)
  show ?case
    using Cons.IH [of "bump pc i"] by (auto simp: map_of_bump count_list_0_iff)
qed

lemma keys_fold_bump:
  "fst ` set (fold (\<lambda>i pc. bump pc i) ids pc) = fst ` set pc \<union> set ids"
  by (induction ids arbitrary: pc) (auto simp: bump_def keys_assign)

lemma distinct_fold_bump:
  "distinct (map fst pc) \<Longrightarrow> distinct (map fst (fold (\<lambda>i pc. bump pc i) ids pc))"
  by (induction ids arbitrary: pc) (auto simp: bump_def distinct_assign)

lemma tally_fold: "tally orders = fold (\<lambda>i pc. bump pc i) (map o_game_id orders) []"
  by (simp add: tally_def fold_map comp_def)

lemma map_insort_key: "map f (insort_key f x ys) = insort (f x) (map f ys)"
  by (induction ys) auto

lemma map_sort_key: "map f (sort_key f xs) = sort (map f xs)"
  by (induction xs) (auto simp: map_insort_key)

lemma insort_key_map: "insort_key f (g x) (map g ys) = map g (insort_key (\<lambda>x. f (g x)) x ys)"
  by (induction ys) auto

lemma sort_key_map: "sort_key f (map g xs) = map g (sort_key (\<lambda>x. f (g x)) xs)"
  by (induction xs) (auto simp: insort_key_map)

lemma entries_by_keys:
  "distinct (map fst pc) \<Longrightarrow> set L \<subseteq> set pc \<Longrightarrow>
   L = map (\<lambda>k. (k, the (map_of pc k))) (map fst L)"
proof (induction L)
  case Nil
  then show ?case by simp
next
  case (Cons p L)
  obtain k v where p: "p = (k, v)" by (cases p)
  with Cons.prems have "(k, v) \<in> set pc" by simp
  with Cons.prems(1) have "map_of pc k = Some v" by (rule map_of_is_SomeI)
  then have "the (map_of pc k) = v" by simp
  with Cons p show ?case by simp
qed

lemma Object_entries_indices:
  assumes "distinct (map fst pc)" and "\<forall>k \<in> fst ` set pc. is_array_index k"
  shows "Object_entries pc = map (\<lambda>k. (k, the (map_of pc k))) (sort (map fst pc))"
proof -
  from assms(2) have a: "filter (\<lambda>(k, v). is_array_index k) pc = pc"
    by (auto simp: filter_id_conv)
  from assms(2) have b: "filter (\<lambda>(k, v). \<not> is_array_index k) pc = []"
    by (auto simp: filter_empty_conv)
  have "sort_key fst pc = map (\<lambda>k. (k, the (map_of pc k))) (map fst (sort_key fst pc))"
    using assms(1) by (rule entries_by_keys) simp
  then show ?thesis by (simp add: Object_entries_def a b map_sort_key)
qed

lemma tally_entries:
  assumes "\<forall>i \<in> set (map o_game_id orders). is_array_index i"
  shows "Object_entries (tally orders)
           = map (\<lambda>k. (k, int (count_list (map o_game_id orders) k)))
               (sort (remdups (map o_game_id orders)))"
proof -
  let ?ids = "map o_game_id orders"
  have d: "distinct (map fst (tally orders))"
    by (simp add: tally_fold distinct_fold_bump)
  have k: "fst ` set (tally orders) = set ?ids"
    by (simp add: tally_fold keys_fold_bump)
  have s: "sort (map fst (tally orders)) = sort (remdups ?ids)"
    using d k by (intro sorted_distinct_set_unique) simp_all
  have "Object_entries (tally orders)
          = map (\<lambda>k. (k, the (map_of (tally orders) k))) (sort (remdups ?ids))"
    using Object_entries_indices [OF d] assms k s by simp
  also have "\<dots> = map (\<lambda>k. (k, int (count_list ?ids k))) (sort (remdups ?ids))"
    by (rule map_cong) (simp_all add: tally_fold map_of_fold_bump)
  finally show ?thesis .
qed

lemma sortedGameIds_indices:
  assumes "\<forall>i \<in> set (map o_game_id orders). is_array_index i"
  shows "sortedGameIds orders
           = take 3 (sort_key (\<lambda>k. - int (count_list (map o_game_id orders) k))
                       (sort (remdups (map o_game_id orders))))"
proof -
  have c: "(\<lambda>(ka :: int, a :: int) (kb :: int, b :: int). b - a) = (\<lambda>x y. snd y - snd x)"
    by (simp add: fun_eq_iff)
  show ?thesis
    by (simp add: sortedGameIds_def tally_entries [OF assms] c js_sort_desc sort_key_map
          take_map [symmetric] comp_def)
qed

lemma insort_key_lex:
  assumes "sorted_wrt (\<lambda>a b. f a < f b \<or> (f a = f b \<and> a < b)) ys" and "\<forall>y \<in> set ys. x < y"
  shows "sorted_wrt (\<lambda>a b. f a < f b \<or> (f a = f b \<and> a < b)) (insort_key f x ys)"
  using assms
proof (induction ys)
  case Nil
  then show ?case by simp
next
  case (Cons y ys)
  show ?case
  proof (cases "f x \<le> f y")
    case True
    with Cons.prems show ?thesis by (fastforce simp: le_less)
  next
    case False
    with Cons show ?thesis by (auto simp: set_insort_key)
  qed
qed

lemma sort_key_lex:
  "sorted xs \<Longrightarrow> distinct xs \<Longrightarrow>
   sorted_wrt (\<lambda>a b. f a < f b \<or> (f a = f b \<and> a < b)) (sort_key f xs)"
proof (induction xs)
  case Nil
  then show ?case by simp
next
  case (Cons x xs)
  then have "\<forall>y \<in> set (sort_key f xs). x < y" by (auto simp: le_less)
  with Cons show ?case by (simp add: insort_key_lex)
qed

lemma length_map_filter: "length (List.map_filter f xs) \<le> length xs"
  by (simp add: List.map_filter_def)

lemma getMostPurchasedGames_padded:
  "getMostPurchasedGames games (Inr orders)
     = (let featured = List.map_filter (\<lambda>i. find (\<lambda>g. g_id g = i) games) (sortedGameIds orders)
        in featured
           @ take (3 - length featured)
               (filter (\<lambda>g. find (\<lambda>fg. g_id fg = g_id g) featured = None) games))"
  by (simp add: getMostPurchasedGames_def Let_def)

lemma getMostPurchasedGames_length: "length (getMostPurchasedGames games fetched) \<le> 3"
proof (cases fetched)
  case (Inl e)
  then show ?thesis by (simp add: getMostPurchasedGames_def)
next
  case (Inr orders)
  have "length (List.map_filter (\<lambda>i. find (\<lambda>g. g_id g = i) games) (sortedGameIds orders))
          \<le> length (sortedGameIds orders)"
    by (rule length_map_filter)
  also have "\<dots> \<le> 3" by (simp add: sortedGameIds_def)
  finally show ?thesis using Inr by (auto simp: getMostPurchasedGames_def Let_def)
qed

text \<open>
  C7, as stated, fails: with one order of game 2 followed by one order of game 1 the
  counts tie and game 2 comes first in the input, but the result lists game 1 first.
\<close>

theorem C7_counterexample:
  "map o_game_id [sample_order 1 2, sample_order 2 1] = [2, 1] \<and>
   tally [sample_order 1 2, sample_order 2 1] = [(2, 1), (1, 1)] \<and>
   getMostPurchasedGames
     [sample_game 1 30 4 100 7 1, sample_game 2 10 0 300 7 2, sample_game 3 30 5 200 8 1]
     (Inr [sample_order 1 2, sample_order 2 1])
     = [sample_game 1 30 4 100 7 1, sample_game 2 10 0 300 7 2, sample_game 3 30 5 200 8 1]"
  by (simp add: getMostPurchasedGames_def sortedGameIds_def Object_entries_def tally_def bump_def
        is_array_index_def js_sort_def sample_order_def sample_game_def List.map_filter_def)

text \<open>
  C7, amended: when every ordered game id is an array index (an integer from 0 to
  \<open>2\<^sup>3\<^sup>2 - 2\<close>), the ids chosen are the first 3 of the distinct ordered ids
  arranged by descending purchase count, ties by ascending id; the result is the catalog
  games these ids resolve to, in that order, followed by the first catalog games not
  among them, in catalog order, up to 3 games in all.
\<close>

theorem C7_featured:
  assumes "\<forall>order \<in> set orders. is_array_index (o_game_id order)"
  shows "sortedGameIds orders
           = take 3 (sort_key (\<lambda>k. - int (count_list (map o_game_id orders) k))
                       (sort (remdups (map o_game_id orders)))) \<and>
         sorted_wrt (\<lambda>a b. count_list (map o_game_id orders) b < count_list (map o_game_id orders) a \<or>
                         (count_list (map o_game_id orders) a = count_list (map o_game_id orders) b \<and>
                          a < b))
           (sortedGameIds orders) \<and>
         getMostPurchasedGames games (Inr orders)
           = (let featured = List.map_filter (\<lambda>i. find (\<lambda>g. g_id g = i) games) (sortedGameIds orders)
              in featured
                 @ take (3 - length featured)
                     (filter (\<lambda>g. find (\<lambda>fg. g_id fg = g_id g) featured = None) games)) \<and>
         length (getMostPurchasedGames games (Inr orders)) \<le> 3"
proof -
  let ?c = "\<lambda>k. - int (count_list (map o_game_id orders) k)"
  from assms have i: "\<forall>i \<in> set (map o_game_id orders). is_array_index i" by simp
  have s: "sortedGameIds orders = take 3 (sort_key ?c (sort (remdups (map o_game_id orders))))"
    using i by (rule sortedGameIds_indices)
  have "sorted_wrt (\<lambda>a b. ?c a < ?c b \<or> (?c a = ?c b \<and> a < b))
          (sort_key ?c (sort (remdups (map o_game_id orders))))"
    by (rule sort_key_lex) simp_all
  then have "sorted_wrt (\<lambda>a b. ?c a < ?c b \<or> (?c a = ?c b \<and> a < b)) (sortedGameIds orders)"
    unfolding s by (rule sorted_wrt_take)
  then have l: "sorted_wrt (\<lambda>a b. count_list (map o_game_id orders) b
                                   < count_list (map o_game_id orders) a \<or>
                         (count_list (map o_game_id orders) a = count_list (map o_game_id orders) b \<and>
                          a < b))
           (sortedGameIds orders)"
    by simp
  from s l getMostPurchasedGames_padded [of games orders]
    getMostPurchasedGames_length [of games "Inr orders"]
  show ?thesis by blast
qed

theorem C7_featured_witness:
  "is_array_index 1 \<and> is_array_index 2 \<and>
   sortedGameIds [sample_order 1 1, sample_order 2 1, sample_order 3 2] = [1, 2] \<and>
   getMostPurchasedGames
     [sample_game 3 30 5 200 8 1, sample_game 2 10 0 300 7 2, sample_game 1 30 4 100 7 1]
     (Inr [sample_order 1 1, sample_order 2 1, sample_order 3 2])
     = [sample_game 1 30 4 100 7 1, sample_game 2 10 0 300 7 2, sample_game 3 30 5 200 8 1]"
proof -
  have h: "\<forall>order \<in> set [sample_order 1 1, sample_order 2 1, sample_order 3 2].
             is_array_index (o_game_id order)"
    by (simp add: sample_order_def is_array_index_def)
  have i: "is_array_index 1 \<and> is_array_index 2"
    by (simp add: is_array_index_def)
  have m: "map o_game_id [sample_order 1 1, sample_order 2 1, sample_order 3 2] = [1, 1, 2]"
    by (simp add: sample_order_def)
  note t = C7_featured [OF h,
    of "[sample_game 3 30 5 200 8 1, sample_game 2 10 0 300 7 2, sample_game 1 30 4 100 7 1]"]
  from t have s: "sortedGameIds [sample_order 1 1, sample_order 2 1, sample_order 3 2] = [1, 2]"
    unfolding m by simp
  from t have "getMostPurchasedGames
     [sample_game 3 30 5 200 8 1, sample_game 2 10 0 300 7 2, sample_game 1 30 4 100 7 1]
     (Inr [sample_order 1 1, sample_order 2 1, sample_order 3 2])
     = [sample_game 1 30 4 100 7 1, sample_game 2 10 0 300 7 2, sample_game 3 30 5 200 8 1]"
    unfolding s by (simp add: List.map_filter_def sample_game_def)
  with i s show ?thesis by blast
qed

subsection \<open>The pipeline on the store\<close>

lemma insert_by_map:
  "map g (insert_by (\<lambda>x y. cmp (g x) (g y)) x ys) = insert_by cmp (g x) (map g ys)"
  by (induction ys) auto

lemma js_sort_map: "map g (js_sort (\<lambda>x y. cmp (g x) (g y)) xs) = js_sort cmp (map g xs)"
  by (induction xs) (simp_all add: js_sort_def insert_by_map)

lemma extends_trans: "extends h1 h2 \<Longrightarrow> extends h2 h3 \<Longrightarrow> extends h1 h3"
  by (auto simp: extends_def)

lemma filter_array_result:
  "filter_array P a h = (r, h') \<Longrightarrow>
   extends h h' \<and> r = lim h \<and> lim h' = lim h + 1 \<and> games_at h' r = filter P (games_at h a)"
  by (auto simp: filter_array_def alloc_def extends_def games_at_def filter_map comp_def)

lemma copy_array_result:
  "copy_array a h = (r, h') \<Longrightarrow>
   extends h h' \<and> r = lim h \<and> lim h' = lim h + 1 \<and> games_at h' r = games_at h a"
  by (auto simp: copy_array_def alloc_def extends_def games_at_def)

lemma applyFilters_in_result:
  assumes "applyFilters_in a c h = (r, h')"
  shows "extends h h' \<and> lim h \<le> r \<and> r < lim h' \<and>
         games_at h' r = applyFilters (c\<lparr>allGames := games_at h a\<rparr>)"
proof -
  obtain r0 h0 where c0: "copy_array a h = (r0, h0)" by (cases "copy_array a h")
  define s1 where "s1 = (case selectedGenre c of
                             None \<Rightarrow> (r0, h0)
                           | Some sg \<Rightarrow> filter_array (\<lambda>game. genre_id game = sg) r0 h0)"
  obtain r1 h1 where c1: "s1 = (r1, h1)" by (cases s1)
  define s2 where "s2 = (case selectedPlatform c of
                             None \<Rightarrow> (r1, h1)
                           | Some sp \<Rightarrow> filter_array (\<lambda>game. platform_id game = sp) r1 h1)"
  obtain r2 h2 where c2: "s2 = (r2, h2)" by (cases s2)
  have c3: "filter_array (\<lambda>game. minPrice c \<le> price game \<and> price game \<le> maxPrice c) r2 h2 = (r, h')"
    using assms c0 c1 c2 by (simp add: applyFilters_in_def s1_def s2_def)
  note p0 = copy_array_result [OF c0]
  have p1: "extends h0 h1 \<and> lim h0 \<le> lim h1 \<and>
            games_at h1 r1 = (case selectedGenre c of None \<Rightarrow> games_at h0 r0
                              | Some sg \<Rightarrow> filter (\<lambda>game. genre_id game = sg) (games_at h0 r0))"
    using c1 filter_array_result [of _ r0 h0 r1 h1]
    by (auto simp: s1_def extends_def split: option.splits)
  have p2: "extends h1 h2 \<and> lim h1 \<le> lim h2 \<and>
            games_at h2 r2 = (case selectedPlatform c of None \<Rightarrow> games_at h1 r1
                              | Some sp \<Rightarrow> filter (\<lambda>game. platform_id game = sp) (games_at h1 r1))"
    using c2 filter_array_result [of _ r1 h1 r2 h2]
    by (auto simp: s2_def extends_def split: option.splits)
  note p3 = filter_array_result [OF c3]
  have e: "extends h h'"
    using p0 p1 p2 p3 by (blast intro: extends_trans)
  have l: "lim h \<le> r \<and> r < lim h'"
    using p0 p1 p2 p3 by simp
  have g: "games_at h' r = applyFilters (c\<lparr>allGames := games_at h a\<rparr>)"
    using p0 p1 p2 p3 by (simp add: applyFilters_def Let_def split: option.splits)
  from e l g show ?thesis by blast
qed

lemma sort_array_result:
  "objects (sort_array cmp r h) = objects h \<and> lim (sort_array cmp r h) = lim h \<and>
   (\<forall>b. b \<noteq> r \<longrightarrow> arrays (sort_array cmp r h) b = arrays h b) \<and>
   games_at (sort_array cmp r h) r = js_sort cmp (games_at h r)"
  by (simp add: sort_array_def games_at_def js_sort_map)

lemma applySort_in_result:
  "objects (applySort_in key r h) = objects h \<and> lim (applySort_in key r h) = lim h \<and>
   (\<forall>b. b \<noteq> r \<longrightarrow> arrays (applySort_in key r h) b = arrays h b) \<and>
   games_at (applySort_in key r h) r = applySort key (games_at h r)"
  by (simp add: applySort_in_def applySort_def sort_array_result)

lemma getFilteredGames_in_result:
  assumes "getFilteredGames_in a c h = (r, h')"
  shows "extends h h' \<and> lim h \<le> r \<and> r < lim h' \<and>
         games_at h' r = getFilteredGames (c\<lparr>allGames := games_at h a\<rparr>)"
proof -
  obtain h1 where f: "applyFilters_in a c h = (r, h1)" and s: "h' = applySort_in (sortBy c) r h1"
    using assms by (auto simp: getFilteredGames_in_def Let_def split: prod.splits)
  note p = applyFilters_in_result [OF f]
  note q = applySort_in_result [of "sortBy c" r h1]
  have e: "extends h h'"
    using p q s by (auto simp: extends_def)
  from p q s have "games_at h' r = getFilteredGames (c\<lparr>allGames := games_at h a\<rparr>)"
    by (simp add: getFilteredGames_def)
  with e p q s show ?thesis by simp
qed

text \<open>
  C9: a call of the pipeline on an allocated input array returns an array that did not
  exist before the call, leaves every array that existed (the input among them: its
  order, its length, its elements) and every game object as they were, and holds the
  games the pure pipeline computes; a second call with the same inputs returns another
  new array holding the same games, and leaves the input and the first result untouched.
\<close>

theorem C9_pipeline_frame:
  assumes "a < lim h"
    and "getFilteredGames_in a c h = (r, h')"
    and "getFilteredGames_in a c h' = (r2, h'')"
  shows "lim h \<le> r \<and> r < lim h' \<and>
         objects h' = objects h \<and>
         (\<forall>b < lim h. arrays h' b = arrays h b) \<and>
         arrays h' a = arrays h a \<and>
         games_at h' a = games_at h a \<and>
         games_at h' r = getFilteredGames (c\<lparr>allGames := games_at h a\<rparr>) \<and>
         r2 \<noteq> r \<and>
         games_at h'' r2 = games_at h' r \<and>
         games_at h'' r = games_at h' r \<and>
         games_at h'' a = games_at h a"
proof -
  note p = getFilteredGames_in_result [OF assms(2)]
  note q = getFilteredGames_in_result [OF assms(3)]
  from p assms(1) have a1: "arrays h' a = arrays h a" "objects h' = objects h" "a < lim h'"
    by (auto simp: extends_def)
  then have g1: "games_at h' a = games_at h a"
    by (simp add: games_at_def)
  from q a1 p have a2: "arrays h'' a = arrays h' a" "arrays h'' r = arrays h' r"
    "objects h'' = objects h'"
    by (auto simp: extends_def)
  then have g2: "games_at h'' a = games_at h' a" "games_at h'' r = games_at h' r"
    by (simp_all add: games_at_def)
  from p q g1 have s: "games_at h'' r2 = games_at h' r" by simp
  from p q have n: "r2 \<noteq> r" by simp
  from p have f: "\<forall>b < lim h. arrays h' b = arrays h b" by (simp add: extends_def)
  from p a1 g1 g2 s n f show ?thesis by simp
qed

lemma sample_run:
  "getFilteredGames_in 0 sample_sorting sample_store
     = (fst (getFilteredGames_in 0 sample_sorting sample_store),
        snd (getFilteredGames_in 0 sample_sorting sample_store))"
  "getFilteredGames_in 0 sample_sorting (snd (getFilteredGames_in 0 sample_sorting sample_store))
     = (fst (getFilteredGames_in 0 sample_sorting
               (snd (getFilteredGames_in 0 sample_sorting sample_store))),
        snd (getFilteredGames_in 0 sample_sorting
               (snd (getFilteredGames_in 0 sample_sorting sample_store))))"
  by simp_all

lemma sample_run_eval:
  "fst (getFilteredGames_in 0 sample_sorting sample_store) = 3"
  "arrays (snd (getFilteredGames_in 0 sample_sorting sample_store)) 3 = [3, 0, 2]"
  "arrays (snd (getFilteredGames_in 0 sample_sorting sample_store)) 0 = [0, 1, 2, 3]"
  by (simp_all add: getFilteredGames_in_def applyFilters_in_def applySort_in_def copy_array_def
        filter_array_def alloc_def sort_array_def sample_sorting_def sample_store_def
        sample_catalog_def sample_game_def js_sort_def)

theorem C9_pipeline_frame_witness:
  "(0::nat) < lim sample_store \<and>
   fst (getFilteredGames_in 0 sample_sorting sample_store) = 3 \<and>
   arrays (snd (getFilteredGames_in 0 sample_sorting sample_store)) 3 = [3, 0, 2] \<and>
   arrays (snd (getFilteredGames_in 0 sample_sorting sample_store)) 0 = [0, 1, 2, 3] \<and>
   fst (getFilteredGames_in 0 sample_sorting (snd (getFilteredGames_in 0 sample_sorting sample_store)))
     \<noteq> fst (getFilteredGames_in 0 sample_sorting sample_store) \<and>
   games_at (snd (getFilteredGames_in 0 sample_sorting
                    (snd (getFilteredGames_in 0 sample_sorting sample_store))))
            (fst (getFilteredGames_in 0 sample_sorting
                    (snd (getFilteredGames_in 0 sample_sorting sample_store))))
     = games_at (snd (getFilteredGames_in 0 sample_sorting sample_store))
                (fst (getFilteredGames_in 0 sample_sorting sample_store))"
proof -
  have h: "(0::nat) < lim sample_store"
    by (simp add: sample_store_def)
  note t = C9_pipeline_frame [OF h sample_run]
  from t h sample_run_eval show ?thesis by blast
qed

end
